theory Spec2Isabelle
  imports Complex_Main "HOL-Library.Word"
begin

unbundle bit_operations_syntax

section \<open>Machine types\<close>

text \<open>
  The library is C: \<open>uint8_t\<close> is an 8-bit word, \<open>uint16_t\<close> a 16-bit word, and an
  \<open>enum\<close> is an \<open>int\<close>-sized value (32 bits) that the code casts to and from bytes, so
  every enumeration is a 32-bit word with its enumerators as named constants.
\<close>

type_synonym u8 = "8 word"
type_synonym u16 = "16 word"
type_synonym u32 = "32 word"

section \<open>Doubles\<close>

text \<open>
  A C \<open>double\<close> is an IEEE 754 binary64 number on the targets of the three backends, and
  an arithmetic operation on doubles returns the exact result rounded to the nearest
  binary64 number, ties to the even significand. The model carries a double as the real
  number it denotes and rounds after every operation (one rounding per operation, as with
  SSE2 or ARM64 arithmetic).

  \<open>bit_length n\<close> is the number of binary digits of \<open>n\<close>. For \<open>a > 0\<close>,
  \<open>binary64_exponent a\<close> is the exponent \<open>e\<close> with \<open>2^e \<le> a < 2^(e+1)\<close>: for
  \<open>a \<ge> 1\<close> it is read off the integer part of \<open>a\<close>, for \<open>a < 1\<close> off the integer
  \<open>\<lceil>1/a\<rceil> - 1\<close>. \<open>binary64_round q\<close> is the integer nearest to \<open>q\<close>, the even
  one of the two when \<open>q\<close> lies half way. \<open>binary64 x\<close> scales \<open>\<bar>x\<bar>\<close> by the unit in
  the last place of its binade, \<open>2^(e-52)\<close>, rounds to an integer and scales back; below
  \<open>2^-1022\<close> the unit stays \<open>2^-1074\<close> (subnormal numbers). Infinities and NaN are not
  numbers of the model: the computations below stay under \<open>2^1024\<close>, and a division by
  zero is a case of its own where one can occur.
\<close>

fun bit_length :: "nat \<Rightarrow> nat" where
  "bit_length n = (if n = 0 then 0 else Suc (bit_length (n div 2)))"

declare bit_length.simps [simp del]

definition binary64_exponent :: "real \<Rightarrow> int" where
  "binary64_exponent a =
     (if 1 \<le> a then int (bit_length (nat \<lfloor>a\<rfloor>)) - 1
      else - int (bit_length (nat (\<lceil>1 / a\<rceil> - 1))))"

definition binary64_round :: "real \<Rightarrow> int" where
  "binary64_round q =
     (let n = \<lfloor>q\<rfloor>; r = q - of_int n
      in if r < 1 / 2 then n else if 1 / 2 < r then n + 1 else if even n then n else n + 1)"

definition binary64 :: "real \<Rightarrow> real" where
  "binary64 x =
     (if x = 0 then 0
      else
        (let a = \<bar>x\<bar>;
             e = max (binary64_exponent a) (- 1022);
             v = (if e \<le> 52
                  then of_int (binary64_round (a * 2 ^ nat (52 - e))) / 2 ^ nat (52 - e)
                  else of_int (binary64_round (a / 2 ^ nat (e - 52))) * 2 ^ nat (e - 52))
         in if x < 0 then - v else v))"

text \<open>The operations \<open>+\<close>, \<open>*\<close> and \<open>/\<close> on doubles (the divisor is not zero).\<close>

definition dbl_add :: "real \<Rightarrow> real \<Rightarrow> real" where
  "dbl_add x y = binary64 (x + y)"

definition dbl_mul :: "real \<Rightarrow> real \<Rightarrow> real" where
  "dbl_mul x y = binary64 (x * y)"

definition dbl_div :: "real \<Rightarrow> real \<Rightarrow> real" where
  "dbl_div x y = binary64 (x / y)"

section \<open>Result codes (minimidio.h, lines 213-222 and 520-529)\<close>

type_synonym mm_result = "32 word"

definition MM_SUCCESS :: mm_result where "MM_SUCCESS = 0"
definition MM_ERROR :: mm_result where "MM_ERROR = - 1"
definition MM_INVALID_ARG :: mm_result where "MM_INVALID_ARG = - 2"
definition MM_NO_BACKEND :: mm_result where "MM_NO_BACKEND = - 3"
definition MM_OUT_OF_RANGE :: mm_result where "MM_OUT_OF_RANGE = - 4"
definition MM_ALREADY_OPEN :: mm_result where "MM_ALREADY_OPEN = - 5"
definition MM_NOT_OPEN :: mm_result where "MM_NOT_OPEN = - 6"
definition MM_ALLOC_FAILED :: mm_result where "MM_ALLOC_FAILED = - 7"

lemmas mm_result_defs =
  MM_SUCCESS_def MM_ERROR_def MM_INVALID_ARG_def MM_NO_BACKEND_def
  MM_OUT_OF_RANGE_def MM_ALREADY_OPEN_def MM_NOT_OPEN_def MM_ALLOC_FAILED_def

definition mm__result_strings :: "string list" where
  "mm__result_strings =
     [''MM_SUCCESS'', ''MM_ERROR'', ''MM_INVALID_ARG'', ''MM_NO_BACKEND'',
      ''MM_OUT_OF_RANGE'', ''MM_ALREADY_OPEN'', ''MM_NOT_OPEN'', ''MM_ALLOC_FAILED'']"

text \<open>
  A read \<open>a[i]\<close> of a C array with an \<open>int\<close> index: \<open>None\<close> stands for a read outside
  the array.
\<close>

definition array_read :: "'a list \<Rightarrow> int \<Rightarrow> 'a option" where
  "array_read a i = (if 0 \<le> i \<and> i < int (length a) then Some (a ! nat i) else None)"

text \<open>
  \<open>mm_result_string\<close>. \<open>int i = -(int)r\<close> is a negation of a 32-bit \<open>int\<close>, taken with
  two's-complement wrap-around (\<open>- INT_MIN = INT_MIN\<close>); the comparisons are signed; the
  bound is \<open>sizeof(mm__result_strings)/sizeof(*mm__result_strings)\<close>, the length of the table.
\<close>

definition mm_result_string :: "mm_result \<Rightarrow> string option" where
  "mm_result_string r =
     (let i = - r
      in if i <s 0 \<or> word_of_nat (length mm__result_strings) \<le>s i then Some ''MM_UNKNOWN''
         else array_read mm__result_strings (sint i))"

section \<open>Messages (minimidio.h, lines 226-292 and 352-361)\<close>

type_synonym mm_message_type = "32 word"

definition MM_NOTE_OFF :: mm_message_type where "MM_NOTE_OFF = 0x08"
definition MM_NOTE_ON :: mm_message_type where "MM_NOTE_ON = 0x09"
definition MM_POLY_PRESSURE :: mm_message_type where "MM_POLY_PRESSURE = 0x0A"
definition MM_CONTROL_CHANGE :: mm_message_type where "MM_CONTROL_CHANGE = 0x0B"
definition MM_PROGRAM_CHANGE :: mm_message_type where "MM_PROGRAM_CHANGE = 0x0C"
definition MM_CHANNEL_PRESSURE :: mm_message_type where "MM_CHANNEL_PRESSURE = 0x0D"
definition MM_PITCH_BEND :: mm_message_type where "MM_PITCH_BEND = 0x0E"
definition MM_SYSEX :: mm_message_type where "MM_SYSEX = 0x10"
definition MM_MTC_QUARTER_FRAME :: mm_message_type where "MM_MTC_QUARTER_FRAME = 0x11"
definition MM_SONG_POSITION :: mm_message_type where "MM_SONG_POSITION = 0x12"
definition MM_SONG_SELECT :: mm_message_type where "MM_SONG_SELECT = 0x13"
definition MM_TUNE_REQUEST :: mm_message_type where "MM_TUNE_REQUEST = 0x14"
definition MM_CLOCK :: mm_message_type where "MM_CLOCK = 0x18"
definition MM_START :: mm_message_type where "MM_START = 0x1A"
definition MM_CONTINUE :: mm_message_type where "MM_CONTINUE = 0x1B"
definition MM_STOP :: mm_message_type where "MM_STOP = 0x1C"
definition MM_ACTIVE_SENSE :: mm_message_type where "MM_ACTIVE_SENSE = 0x1E"
definition MM_RESET :: mm_message_type where "MM_RESET = 0x1F"

lemmas mm_type_defs =
  MM_NOTE_OFF_def MM_NOTE_ON_def MM_POLY_PRESSURE_def MM_CONTROL_CHANGE_def
  MM_PROGRAM_CHANGE_def MM_CHANNEL_PRESSURE_def MM_PITCH_BEND_def MM_SYSEX_def
  MM_MTC_QUARTER_FRAME_def MM_SONG_POSITION_def MM_SONG_SELECT_def MM_TUNE_REQUEST_def
  MM_CLOCK_def MM_START_def MM_CONTINUE_def MM_STOP_def MM_ACTIVE_SENSE_def MM_RESET_def

text \<open>
  \<open>mm_message\<close>. \<open>data[2]\<close> is the pair \<open>data0\<close>, \<open>data1\<close>; the borrowed slice
  \<open>sysex\<close>/\<open>sysex_size\<close> is the list of the bytes it covers (empty for the null slice);
  \<open>timestamp\<close> is the real number the \<open>double\<close> denotes.
\<close>

record mm_message =
  msg_type :: mm_message_type
  channel :: u8
  data0 :: u8
  data1 :: u8
  timestamp :: real
  song_position :: u16
  sysex :: "u8 list"

text \<open>\<open>memset(&msg, 0, sizeof(msg))\<close>.\<close>

definition mm_message_zero :: mm_message where
  "mm_message_zero =
     \<lparr>msg_type = 0, channel = 0, data0 = 0, data1 = 0, timestamp = 0,
      song_position = 0, sysex = []\<rparr>"


section \<open>MTC timecode (minimidio.h, lines 254-349)\<close>

type_synonym mm_mtc_rate = "32 word"

definition MM_MTC_24FPS :: mm_mtc_rate where "MM_MTC_24FPS = 0"
definition MM_MTC_25FPS :: mm_mtc_rate where "MM_MTC_25FPS = 1"
definition MM_MTC_30FPS_DROP :: mm_mtc_rate where "MM_MTC_30FPS_DROP = 2"
definition MM_MTC_30FPS :: mm_mtc_rate where "MM_MTC_30FPS = 3"

record mm_mtc_frame =
  hours :: u8
  minutes :: u8
  seconds :: u8
  frames :: u8
  rate :: mm_mtc_rate

text \<open>\<open>pieces\<close> is the array \<open>uint8_t pieces[8]\<close>, a list of length 8.\<close>

record mm_mtc_state =
  pieces :: "u8 list"
  count :: u8

text \<open>The zero-initialised state (\<open>memset(s, 0)\<close>).\<close>

definition mtc_zero_state :: mm_mtc_state where
  "mtc_zero_state = \<lparr>pieces = [0, 0, 0, 0, 0, 0, 0, 0], count = 0\<rparr>"

text \<open>
  \<open>mm_mtc_push\<close>: the C function returns 0 and leaves \<open>*out\<close> alone, or returns 1 and
  fills \<open>*out\<close>; the model returns the new state with \<open>None\<close> or \<open>Some\<close> frame.
  \<open>++s->count\<close> is an increment of a \<open>uint8_t\<close>.
\<close>

definition mm_mtc_push :: "mm_mtc_state \<Rightarrow> u8 \<Rightarrow> mm_mtc_state \<times> mm_mtc_frame option" where
  "mm_mtc_push s qf =
     (let nibble = qf AND 0x0F;
          piece = drop_bit 4 qf AND 0x07;
          ps = (pieces s)[unat piece := nibble];
          c = count s + 1
      in if c < 8 then (\<lparr>pieces = ps, count = c\<rparr>, None)
         else (\<lparr>pieces = ps, count = 0\<rparr>,
               Some \<lparr>hours = (ps ! 6) OR push_bit 4 ((ps ! 7) AND 0x01),
                     minutes = (ps ! 4) OR push_bit 4 (ps ! 5),
                     seconds = (ps ! 2) OR push_bit 4 (ps ! 3),
                     frames = (ps ! 0) OR push_bit 4 (ps ! 1),
                     rate = ucast (drop_bit 1 (ps ! 7) AND 0x03)\<rparr>))"

text \<open>
  The table \<open>rates[]\<close> of \<open>mm_mtc_to_seconds\<close> and its lookup \<open>rates[f->rate & 3]\<close>.
  The entries are the doubles the literals \<open>24.0\<close>, \<open>25.0\<close>, \<open>29.97\<close> and \<open>30.0\<close>
  denote: 24, 25 and 30 are binary64 numbers, \<open>29.97\<close> is the binary64 number nearest to
  2997/100.
\<close>

definition mtc_rates :: "real list" where
  "mtc_rates = [24, 25, binary64 (2997 / 100), 30]"

definition mtc_fps :: "mm_mtc_rate \<Rightarrow> real" where
  "mtc_fps r = mtc_rates ! unat (r AND 3)"

text \<open>
  \<open>mm_mtc_to_seconds\<close>: the fields are converted to \<open>double\<close> (exactly, they are below
  256), and the sum is evaluated from the left, as C parses it,
  \<open>((h * 3600.0 + m * 60.0) + s) + f / fps\<close>, every operation rounded.
\<close>

definition mm_mtc_to_seconds :: "mm_mtc_frame \<Rightarrow> real" where
  "mm_mtc_to_seconds f =
     dbl_add
       (dbl_add
          (dbl_add (dbl_mul (real (unat (hours f))) 3600) (dbl_mul (real (unat (minutes f))) 60))
          (real (unat (seconds f))))
       (dbl_div (real (unat (frames f))) (mtc_fps (rate f)))"

text \<open>
  The caller's loop (as in the quick-start callback): one \<open>mm_mtc_push\<close> per
  quarter-frame byte, on the same state; the results of the calls are collected in order.
\<close>

fun mtc_push_all :: "mm_mtc_state \<Rightarrow> u8 list \<Rightarrow> mm_mtc_state \<times> mm_mtc_frame option list" where
  "mtc_push_all s [] = (s, [])"
| "mtc_push_all s (qf # qfs) =
     (let (s1, r) = mm_mtc_push s qf;
          (s2, rs) = mtc_push_all s1 qfs
      in (s2, r # rs))"

text \<open>
  Modelled from the spec: the library decodes quarter frames and has no encoder. The eight
  pieces of a frame are the inverse of the layout of section 4.5: piece \<open>k\<close> is the byte
  with upper nibble \<open>k\<close> and the \<open>k\<close>-th nibble of the frame as lower nibble; piece 7
  carries bit 4 of the hours and the rate in bits 1-2.
\<close>

definition mtc_quarter_frames :: "mm_mtc_frame \<Rightarrow> u8 list" where
  "mtc_quarter_frames f =
     [frames f AND 0x0F,
      0x10 OR (drop_bit 4 (frames f) AND 0x0F),
      0x20 OR (seconds f AND 0x0F),
      0x30 OR (drop_bit 4 (seconds f) AND 0x0F),
      0x40 OR (minutes f AND 0x0F),
      0x50 OR (drop_bit 4 (minutes f) AND 0x0F),
      0x60 OR (hours f AND 0x0F),
      0x70 OR ((drop_bit 4 (hours f) AND 0x01 OR push_bit 1 (ucast (rate f) AND 0x03)) AND 0x0F)]"

text \<open>
  The frames of the reassembly property: a frame number below the frame rate, a time of
  day, and one of the four rates.
\<close>

definition mtc_frame_valid :: "mm_mtc_frame \<Rightarrow> bool" where
  "mtc_frame_valid f \<longleftrightarrow>
     real (unat (frames f)) < mtc_fps (rate f) \<and> hours f < 24 \<and> minutes f < 60
     \<and> seconds f < 60
     \<and> rate f \<in> {MM_MTC_24FPS, MM_MTC_25FPS, MM_MTC_30FPS_DROP, MM_MTC_30FPS}"

section \<open>Build-time configuration (minimidio.h, lines 200-205)\<close>

definition MM_MAX_PORTS :: nat where "MM_MAX_PORTS = 64"
definition MM_SYSEX_BUF_SIZE :: nat where "MM_SYSEX_BUF_SIZE = 4096"

section \<open>Contexts and devices (minimidio.h, lines 384-466)\<close>

text \<open>
  The public structs have a common part and a backend part chosen at compile time; the
  model has one record for the common part and one extension per backend. Pointers and OS
  handles are opaque numbers, with 0 for \<open>NULL\<close>; the \<open>int\<close> flags only ever hold 0
  or 1 and are booleans. A pointer argument that may be \<open>NULL\<close> is an \<open>option\<close>.
\<close>

record mm_context =
  initialized :: bool
  name :: string

record mm_context_cm = mm_context +
  cm_client :: nat

record mm_context_alsa = mm_context +
  al_seq :: nat
  al_client_id :: int

record 'c mm_device =
  ctx :: "'c option"
  callback :: nat
  userdata :: nat
  is_input :: bool
  is_open :: bool
  is_virtual :: bool

record mm_device_cm = "mm_context_cm mm_device" +
  cm_port :: nat
  cm_endpoint :: nat
  cm_virt_ep :: nat
  cm_sysex_req_destination :: nat
  cm_sysex_req_bytesToSend :: nat
  cm_sysex_buf :: "u8 list"

text \<open>\<open>memset(dev, 0, sizeof(*dev))\<close> on the CoreMIDI device.\<close>

definition mm_device_cm_zero :: mm_device_cm where
  "mm_device_cm_zero =
     \<lparr>ctx = None, callback = 0, userdata = 0, is_input = False, is_open = False,
      is_virtual = False, cm_port = 0, cm_endpoint = 0, cm_virt_ep = 0,
      cm_sysex_req_destination = 0, cm_sysex_req_bytesToSend = 0,
      cm_sysex_buf = replicate MM_SYSEX_BUF_SIZE 0\<rparr>"

section \<open>CoreMIDI backend: the read procedure (minimidio.h, lines 538-627)\<close>

record mach_timebase =
  numer :: u32
  denom :: u32

text \<open>
  \<open>mm__cm_ts\<close>: \<open>(double)ts * tb.numer / tb.denom * 1e-9\<close>, evaluated from the left. The
  conversion of the 64-bit \<open>ts\<close> rounds, the 32-bit \<open>numer\<close> and \<open>denom\<close> convert
  exactly, and \<open>1e-9\<close> is the binary64 number nearest to \<open>10^-9\<close>. With \<open>denom = 0\<close>
  the quotient is an infinity or NaN: the result is \<open>None\<close> then.
\<close>

definition mm__cm_ts :: "mach_timebase \<Rightarrow> 64 word \<Rightarrow> real option" where
  "mm__cm_ts tb ts =
     (if denom tb = 0 then None
      else Some (dbl_mul
                   (dbl_div (dbl_mul (binary64 (real (unat ts))) (real (unat (numer tb))))
                      (real (unat (denom tb))))
                   (binary64 (1 / 10 ^ 9))))"

record MIDIPacket =
  timeStamp :: "64 word"
  pkt_data :: "u8 list"

text \<open>
  The SysEx scan \<open>while (j < pkt->length && pkt->data[j] != 0xF7) j++; if (j < pkt->length) j++;\<close>
  from the cursor on: the bytes the cursor passes (the slice of the message) and the bytes
  left after it.
\<close>

fun sysex_scan :: "u8 list \<Rightarrow> u8 list \<times> u8 list" where
  "sysex_scan [] = ([], [])"
| "sysex_scan (b # bs) =
     (if b \<noteq> 0xF7 then (let (x, r) = sysex_scan bs in (b # x, r)) else ([b], bs))"

text \<open>
  One iteration of the loop \<open>while (j < pkt->length)\<close>: \<open>s\<close> is \<open>pkt->data[j]\<close> and
  \<open>rest\<close> the bytes after it. The result is the message handed to the callback in this
  iteration, if any, and the bytes from the new cursor on. Every read of \<open>pkt->data\<close> in
  the source is guarded by \<open>j < pkt->length\<close>; the guards are the \<open>case\<close>s on the
  remaining bytes.
\<close>

definition cm_step :: "real \<Rightarrow> u8 \<Rightarrow> u8 list \<Rightarrow> mm_message option \<times> u8 list" where
  "cm_step ts s rest =
     (let msg = mm_message_zero\<lparr>timestamp := ts\<rparr> in
      if 0xF8 \<le> s then
        (if s = 0xF8 then (Some (msg\<lparr>msg_type := MM_CLOCK\<rparr>), rest)
         else if s = 0xFA then (Some (msg\<lparr>msg_type := MM_START\<rparr>), rest)
         else if s = 0xFB then (Some (msg\<lparr>msg_type := MM_CONTINUE\<rparr>), rest)
         else if s = 0xFC then (Some (msg\<lparr>msg_type := MM_STOP\<rparr>), rest)
         else if s = 0xFE then (Some (msg\<lparr>msg_type := MM_ACTIVE_SENSE\<rparr>), rest)
         else if s = 0xFF then (Some (msg\<lparr>msg_type := MM_RESET\<rparr>), rest)
         else (None, rest))
      else if s = 0xF0 then
        (let (x, r) = sysex_scan (s # rest)
         in (Some (msg\<lparr>msg_type := MM_SYSEX, sysex := x\<rparr>), r))
      else if 0xF1 \<le> s \<and> s \<le> 0xF6 then
        (if s = 0xF1 then
           (case rest of
              [] \<Rightarrow> (Some (msg\<lparr>msg_type := MM_MTC_QUARTER_FRAME\<rparr>), [])
            | d # r \<Rightarrow> (Some (msg\<lparr>msg_type := MM_MTC_QUARTER_FRAME, data0 := d\<rparr>), r))
         else if s = 0xF2 then
           (case rest of
              lsb # msb # r \<Rightarrow>
                (Some (msg\<lparr>msg_type := MM_SONG_POSITION,
                             song_position := ucast lsb OR push_bit 7 (ucast msb),
                             data0 := lsb, data1 := msb\<rparr>), r)
            | _ \<Rightarrow> (Some (msg\<lparr>msg_type := MM_SONG_POSITION\<rparr>), rest))
         else if s = 0xF3 then
           (case rest of
              [] \<Rightarrow> (Some (msg\<lparr>msg_type := MM_SONG_SELECT\<rparr>), [])
            | d # r \<Rightarrow> (Some (msg\<lparr>msg_type := MM_SONG_SELECT, data0 := d\<rparr>), r))
         else if s = 0xF6 then (Some (msg\<lparr>msg_type := MM_TUNE_REQUEST\<rparr>), rest)
         else (None, rest))
      else if 0x80 \<le> s then
        (let msg1 = msg\<lparr>msg_type := ucast (drop_bit 4 s AND 0x0F), channel := s AND 0x0F\<rparr>;
             (msg2, r1) = (case rest of [] \<Rightarrow> (msg1, []) | d # r \<Rightarrow> (msg1\<lparr>data0 := d\<rparr>, r));
             t = msg_type msg2
         in if t = MM_NOTE_OFF \<or> t = MM_NOTE_ON \<or> t = MM_POLY_PRESSURE
               \<or> t = MM_CONTROL_CHANGE \<or> t = MM_PITCH_BEND
            then (case r1 of [] \<Rightarrow> (Some msg2, []) | d # r \<Rightarrow> (Some (msg2\<lparr>data1 := d\<rparr>), r))
            else (Some msg2, r1))
      else (None, rest))"

lemma sysex_scan_length: "length (snd (sysex_scan bs)) \<le> length bs"
  by (induction bs) (auto split: prod.splits)

lemma cm_step_length: "cm_step ts s rest = (m, rest') \<Longrightarrow> length rest' \<le> length rest"
  using sysex_scan_length [of rest]
  by (auto simp: cm_step_def Let_def split: if_splits list.splits prod.splits)

text \<open>
  The loop over one packet: the messages handed to the callback, in order. The cursor
  moves forward in every iteration, so the loop ends.
\<close>

function cm_parse :: "real \<Rightarrow> u8 list \<Rightarrow> mm_message list" where
  "cm_parse ts [] = []"
| "cm_parse ts (s # rest) =
     (case cm_step ts s rest of
        (None, rest') \<Rightarrow> cm_parse ts rest'
      | (Some m, rest') \<Rightarrow> m # cm_parse ts rest')"
  by pat_completeness auto
termination
  by (relation "measure (\<lambda>(ts, bs). length bs)")
    (auto dest: cm_step_length [OF sym] simp: less_Suc_eq_le)

text \<open>
  The loop over the packets of the list: each packet is parsed with its own timestamp,
  which the body of the inner loop computes (so not for an empty packet). The result is
  \<open>None\<close> when a timestamp is not a number.
\<close>

fun cm_packets :: "mach_timebase \<Rightarrow> MIDIPacket list \<Rightarrow> mm_message list option" where
  "cm_packets tb [] = Some []"
| "cm_packets tb (pkt # pl) =
     (if pkt_data pkt = [] then cm_packets tb pl
      else
        (case mm__cm_ts tb (timeStamp pkt) of
           None \<Rightarrow> None
         | Some ts \<Rightarrow>
             (case cm_packets tb pl of
                None \<Rightarrow> None
              | Some ms \<Rightarrow> Some (cm_parse ts (pkt_data pkt) @ ms))))"

text \<open>\<open>mm__cm_read_proc\<close>: nothing is delivered without a device or a callback.\<close>

definition mm__cm_read_proc ::
    "mach_timebase \<Rightarrow> mm_device_cm option \<Rightarrow> MIDIPacket list \<Rightarrow> mm_message list option" where
  "mm__cm_read_proc tb dev pl =
     (case dev of
        None \<Rightarrow> Some []
      | Some d \<Rightarrow> if callback d = 0 then Some [] else cm_packets tb pl)"


section \<open>CoreMIDI backend: devices (minimidio.h, lines 666-818)\<close>

text \<open>
  The CoreMIDI calls an operation makes, in order, and what the OS answers. The answers
  are parameters of the model: the endpoints present, the handle a create call returns
  (\<open>None\<close> when its status is not \<open>noErr\<close>), and whether the connect or send call
  returns \<open>noErr\<close>. A create call is given the client of the context and the name of
  the port; the name of a port is printed with \<open>snprintf\<close> into \<open>char portname[80]\<close>.
\<close>

datatype cm_call =
    MIDIInputPortCreate nat string
  | MIDIOutputPortCreate nat string
  | MIDIDestinationCreate nat string
  | MIDISourceCreate nat string
  | MIDIPortConnectSource nat nat
  | MIDIPortDisconnectSource nat nat
  | MIDIPortDispose nat
  | MIDIEndpointDispose nat
  | MIDISend nat nat "u8 list"
  | MIDIReceived nat "u8 list"
  | MIDISendSysex nat "u8 list"

record cm_env =
  sources :: "nat list"
  destinations :: "nat list"
  created :: "nat option"
  noErr :: bool

text \<open>
  \<open>MIDIPacketListInit(&pl)\<close> followed by \<open>MIDIPacketListAdd(&pl, sizeof(pl), p, 0, n,
  data)\<close> on the list \<open>MIDIPacketList pl\<close> that lives on the stack: the list with the
  one packet of the \<open>n\<close> bytes, or \<open>NULL\<close> (\<open>None\<close>) when they do not fit. CoreMIDI
  declares the packet of a \<open>MIDIPacketList\<close> with \<open>Byte data[256]\<close>
  (\<open><CoreMIDI/MIDIServices.h>\<close>, which is not part of the repository), so a list of
  \<open>sizeof(pl)\<close> bytes has room for 256 data bytes.
\<close>

definition MIDIPacketList_capacity :: nat where "MIDIPacketList_capacity = 256"

definition MIDIPacketListAdd :: "u8 list \<Rightarrow> u8 list option" where
  "MIDIPacketListAdd bytes =
     (if length bytes \<le> MIDIPacketList_capacity then Some bytes else None)"

type_synonym cm_outcome = "mm_result \<times> mm_device_cm option \<times> cm_call list"






text \<open>
  The \<open>switch\<close> of \<open>mm_out_send\<close>: the bytes \<open>raw[0..len)\<close> of a message, or \<open>None\<close>
  for the \<open>default\<close> branch, which returns \<open>MM_INVALID_ARG\<close>.
\<close>

definition mm_out_send_raw :: "mm_message \<Rightarrow> u8 list option" where
  "mm_out_send_raw msg =
     (let t = msg_type msg in
      if t = MM_NOTE_OFF \<or> t = MM_NOTE_ON \<or> t = MM_POLY_PRESSURE
         \<or> t = MM_CONTROL_CHANGE \<or> t = MM_PITCH_BEND
      then Some [push_bit 4 (ucast t) OR (channel msg AND 0xF), data0 msg, data1 msg]
      else if t = MM_PROGRAM_CHANGE \<or> t = MM_CHANNEL_PRESSURE
      then Some [push_bit 4 (ucast t) OR (channel msg AND 0xF), data0 msg]
      else if t = MM_SONG_POSITION
      then Some [0xF2, ucast (song_position msg AND 0x7F),
                 ucast (drop_bit 7 (song_position msg) AND 0x7F)]
      else if t = MM_MTC_QUARTER_FRAME then Some [0xF1, data0 msg]
      else if t = MM_SONG_SELECT then Some [0xF3, data0 msg]
      else if t = MM_TUNE_REQUEST then Some [0xF6]
      else if t = MM_CLOCK then Some [0xF8]
      else if t = MM_START then Some [0xFA]
      else if t = MM_CONTINUE then Some [0xFB]
      else if t = MM_STOP then Some [0xFC]
      else if t = MM_ACTIVE_SENSE then Some [0xFE]
      else if t = MM_RESET then Some [0xFF]
      else None)"

definition cm_mm_out_send ::
    "cm_env \<Rightarrow> mm_device_cm option \<Rightarrow> mm_message option \<Rightarrow> cm_outcome" where
  "cm_mm_out_send env dev msg =
     (case dev of
        None \<Rightarrow> (MM_NOT_OPEN, dev, [])
      | Some d \<Rightarrow>
          if \<not> is_open d \<or> is_input d then (MM_NOT_OPEN, dev, [])
          else
            (case msg of
               None \<Rightarrow> (MM_INVALID_ARG, dev, [])
             | Some m \<Rightarrow>
                 (case mm_out_send_raw m of
                    None \<Rightarrow> (MM_INVALID_ARG, dev, [])
                  | Some raw \<Rightarrow>
                      (case MIDIPacketListAdd raw of
                         None \<Rightarrow> (MM_ERROR, dev, [])
                       | Some pl \<Rightarrow>
                           (let call = (if is_virtual d then MIDIReceived (cm_virt_ep d) pl
                                        else MIDISend (cm_port d) (cm_endpoint d) pl)
                            in (if noErr env then MM_SUCCESS else MM_ERROR, dev, [call]))))))"

text \<open>
  \<open>mm_out_send_sysex\<close>: the slice \<open>data\<close>, \<open>size\<close> is \<open>None\<close> for a null pointer and
  otherwise the list of its \<open>size\<close> bytes. \<open>memcpy\<close> overwrites the first \<open>size\<close>
  bytes of the device's buffer; what is sent are the first \<open>size\<close> bytes of that buffer.
  A virtual source gets them as one packet of a list on the stack, a destination through
  \<open>MIDISendSysex\<close>.
\<close>

definition cm_mm_out_send_sysex ::
    "cm_env \<Rightarrow> mm_device_cm option \<Rightarrow> u8 list option \<Rightarrow> cm_outcome" where
  "cm_mm_out_send_sysex env dev data =
     (case dev of
        None \<Rightarrow> (MM_NOT_OPEN, dev, [])
      | Some d \<Rightarrow>
          if \<not> is_open d \<or> is_input d then (MM_NOT_OPEN, dev, [])
          else
            (case data of
               None \<Rightarrow> (MM_INVALID_ARG, dev, [])
             | Some bytes \<Rightarrow>
                 if length bytes = 0 \<or> MM_SYSEX_BUF_SIZE < length bytes
                 then (MM_INVALID_ARG, dev, [])
                 else
                   (let d1 = d\<lparr>cm_sysex_buf := bytes @ drop (length bytes) (cm_sysex_buf d)\<rparr>;
                        sent = take (length bytes) (cm_sysex_buf d1)
                    in if is_virtual d then
                         (case MIDIPacketListAdd sent of
                            None \<Rightarrow> (MM_ERROR, Some d1, [])
                          | Some pl \<Rightarrow>
                              (let call = MIDIReceived (cm_virt_ep d) pl
                               in (if noErr env then MM_SUCCESS else MM_ERROR, Some d1, [call])))
                       else
                         (let d2 = d1\<lparr>cm_sysex_req_destination := cm_endpoint d,
                                       cm_sysex_req_bytesToSend := length bytes\<rparr>;
                              call = MIDISendSysex (cm_endpoint d) sent
                          in (if noErr env then MM_SUCCESS else MM_ERROR, Some d2, [call])))))"





section \<open>Well-formed wire data\<close>

text \<open>
  The spec's notions used by the properties of the parser, following the table of message
  kinds in its data model. A data byte is at most \<open>0x7F\<close>. A complete message on the wire
  is a status byte with exactly the data bytes its kind requires (no running status), or a
  SysEx from \<open>0xF0\<close> to the first \<open>0xF7\<close>. A valid byte stream is a concatenation of
  complete messages.
\<close>

definition data_bytes :: "u8 list \<Rightarrow> bool" where
  "data_bytes ds = list_all (\<lambda>b. b \<le> 0x7F) ds"

definition wire_message :: "u8 list \<Rightarrow> bool" where
  "wire_message w =
     (case w of
        [] \<Rightarrow> False
      | s # ds \<Rightarrow>
          if s = 0xF0 then ds \<noteq> [] \<and> last ds = 0xF7 \<and> data_bytes (butlast ds)
          else if s = 0xF1 \<or> s = 0xF3 then length ds = 1 \<and> data_bytes ds
          else if s = 0xF2 then length ds = 2 \<and> data_bytes ds
          else if s = 0xF6 \<or> s = 0xF8 \<or> s = 0xFA \<or> s = 0xFB \<or> s = 0xFC
                  \<or> s = 0xFE \<or> s = 0xFF then ds = []
          else if 0x80 \<le> s \<and> s < 0xF0 then
            (if drop_bit 4 s = 0xC \<or> drop_bit 4 s = 0xD then length ds = 1
             else length ds = 2) \<and> data_bytes ds
          else False)"



text \<open>
  The payload conditions of a message (channel 0-15, 7-bit data bytes, 14-bit song
  position; the slice of a SysEx is a complete SysEx, \<open>0xF0\<close>, 7-bit bytes, \<open>0xF7\<close>,
  that fits the SysEx buffer of a device), the eighteen kinds, and equality of two
  messages in kind, channel and payload: the fields compared are those the kind carries.
\<close>

definition valid_payload :: "mm_message \<Rightarrow> bool" where
  "valid_payload m \<longleftrightarrow>
     channel m < 16 \<and> data0 m \<le> 0x7F \<and> data1 m \<le> 0x7F \<and> song_position m < 16384
     \<and> (msg_type m = MM_SYSEX \<longrightarrow>
          wire_message (sysex m) \<and> hd (sysex m) = 0xF0
          \<and> length (sysex m) \<le> MM_SYSEX_BUF_SIZE)"

definition message_kinds :: "mm_message_type list" where
  "message_kinds =
     [MM_NOTE_OFF, MM_NOTE_ON, MM_POLY_PRESSURE, MM_CONTROL_CHANGE, MM_PROGRAM_CHANGE,
      MM_CHANNEL_PRESSURE, MM_PITCH_BEND, MM_SYSEX, MM_MTC_QUARTER_FRAME, MM_SONG_POSITION,
      MM_SONG_SELECT, MM_TUNE_REQUEST, MM_CLOCK, MM_START, MM_CONTINUE, MM_STOP,
      MM_ACTIVE_SENSE, MM_RESET]"

definition same_message :: "mm_message \<Rightarrow> mm_message \<Rightarrow> bool" where
  "same_message a b \<longleftrightarrow>
     msg_type a = msg_type b \<and>
     (let t = msg_type a in
      if t = MM_NOTE_OFF \<or> t = MM_NOTE_ON \<or> t = MM_POLY_PRESSURE
         \<or> t = MM_CONTROL_CHANGE \<or> t = MM_PITCH_BEND
      then channel a = channel b \<and> data0 a = data0 b \<and> data1 a = data1 b
      else if t = MM_PROGRAM_CHANGE \<or> t = MM_CHANNEL_PRESSURE
      then channel a = channel b \<and> data0 a = data0 b
      else if t = MM_MTC_QUARTER_FRAME \<or> t = MM_SONG_SELECT then data0 a = data0 b
      else if t = MM_SONG_POSITION then song_position a = song_position b
      else if t = MM_SYSEX then sysex a = sysex b
      else True)"




section \<open>ALSA backend: port enumeration (minimidio.h, lines 1038-1105)\<close>

text \<open>
  The sequencer as the enumeration sees it: the clients in the order in which
  \<open>snd_seq_query_next_client\<close> yields them, each with the ports that
  \<open>snd_seq_query_next_port\<close> yields for it. The capability bits are those of ALSA's
  \<open><alsa/seq.h>\<close>, which is not part of the repository.
\<close>

record snd_seq_port =
  port_id :: int
  port_name :: string
  capability :: u32

record snd_seq_client =
  client_id :: int
  client_name :: string
  client_ports :: "snd_seq_port list"

definition SND_SEQ_PORT_CAP_READ :: u32 where "SND_SEQ_PORT_CAP_READ = 1"
definition SND_SEQ_PORT_CAP_WRITE :: u32 where "SND_SEQ_PORT_CAP_WRITE = 2"
definition SND_SEQ_PORT_CAP_SUBS_READ :: u32 where "SND_SEQ_PORT_CAP_SUBS_READ = 32"
definition SND_SEQ_PORT_CAP_SUBS_WRITE :: u32 where "SND_SEQ_PORT_CAP_SUBS_WRITE = 64"

text \<open>
  An entry \<open>mm__alsa_pi\<close>; the list \<open>mm__alsa_pl\<close> is the list of the entries
  \<open>ports[0..count)\<close>, so \<open>count\<close> is its length.
\<close>

record mm__alsa_pi =
  pi_client :: int
  pi_port :: int
  pi_name :: string

text \<open>The decimal digits printed by \<open>%d\<close>.\<close>

function dec_nat :: "nat \<Rightarrow> string" where
  "dec_nat n =
     (if n < 10 then [char_of (48 + n)] else dec_nat (n div 10) @ [char_of (48 + n mod 10)])"
  by pat_completeness auto
termination
  by (relation "measure (\<lambda>n. n)") auto

definition dec_int :: "int \<Rightarrow> string" where
  "dec_int i = (if i < 0 then CHR ''-'' # dec_nat (nat (- i)) else dec_nat (nat i))"

text \<open>\<open>snprintf(p->name, sizeof(p->name), "%s:%s (%d:%d)", ...)\<close> into \<open>char name[256]\<close>.\<close>

definition alsa_port_label :: "snd_seq_client \<Rightarrow> snd_seq_port \<Rightarrow> string" where
  "alsa_port_label c p =
     take 255 (client_name c @ '':'' @ port_name p @ '' ('' @ dec_int (client_id c) @ '':''
               @ dec_int (port_id p) @ '')'')"

text \<open>The inner loop of \<open>mm__alsa_enum\<close>, over the ports of one client.\<close>

fun alsa_enum_ports ::
    "u32 \<Rightarrow> u32 \<Rightarrow> snd_seq_client \<Rightarrow> snd_seq_port list \<Rightarrow> mm__alsa_pi list \<Rightarrow> mm__alsa_pi list" where
  "alsa_enum_ports cap_req cap_any c [] lst = lst"
| "alsa_enum_ports cap_req cap_any c (p # ps) lst =
     (let cap = capability p;
          ok = (cap AND cap_req = cap_req \<or> (cap_any \<noteq> 0 \<and> cap AND cap_any \<noteq> 0))
      in if \<not> ok \<or> MM_MAX_PORTS \<le> length lst then alsa_enum_ports cap_req cap_any c ps lst
         else alsa_enum_ports cap_req cap_any c ps
                (lst @ [\<lparr>pi_client = client_id c, pi_port = port_id p,
                          pi_name = alsa_port_label c p\<rparr>]))"

text \<open>The outer loop, over the clients; the context's own client is passed over.\<close>

fun alsa_enum_clients ::
    "int \<Rightarrow> u32 \<Rightarrow> u32 \<Rightarrow> snd_seq_client list \<Rightarrow> mm__alsa_pi list \<Rightarrow> mm__alsa_pi list" where
  "alsa_enum_clients own cap_req cap_any [] lst = lst"
| "alsa_enum_clients own cap_req cap_any (c # cs) lst =
     (if client_id c = own then alsa_enum_clients own cap_req cap_any cs lst
      else alsa_enum_clients own cap_req cap_any cs
             (alsa_enum_ports cap_req cap_any c (client_ports c) lst))"

definition mm__alsa_enum ::
    "mm_context_alsa \<Rightarrow> snd_seq_client list \<Rightarrow> u32 \<Rightarrow> u32 \<Rightarrow> mm__alsa_pi list" where
  "mm__alsa_enum c seq cap_req cap_any = alsa_enum_clients (al_client_id c) cap_req cap_any seq []"

definition alsa_enum_inputs :: "mm_context_alsa \<Rightarrow> snd_seq_client list \<Rightarrow> mm__alsa_pi list" where
  "alsa_enum_inputs c seq =
     mm__alsa_enum c seq (SND_SEQ_PORT_CAP_READ OR SND_SEQ_PORT_CAP_SUBS_READ) SND_SEQ_PORT_CAP_READ"

definition alsa_enum_outputs :: "mm_context_alsa \<Rightarrow> snd_seq_client list \<Rightarrow> mm__alsa_pi list" where
  "alsa_enum_outputs c seq =
     mm__alsa_enum c seq (SND_SEQ_PORT_CAP_WRITE OR SND_SEQ_PORT_CAP_SUBS_WRITE) 0"

definition alsa_mm_in_count :: "mm_context_alsa option \<Rightarrow> snd_seq_client list \<Rightarrow> u32" where
  "alsa_mm_in_count c seq =
     (case c of
        None \<Rightarrow> 0
      | Some cx \<Rightarrow> if \<not> initialized cx then 0 else word_of_nat (length (alsa_enum_inputs cx seq)))"

definition alsa_mm_out_count :: "mm_context_alsa option \<Rightarrow> snd_seq_client list \<Rightarrow> u32" where
  "alsa_mm_out_count c seq =
     (case c of
        None \<Rightarrow> 0
      | Some cx \<Rightarrow> if \<not> initialized cx then 0 else word_of_nat (length (alsa_enum_outputs cx seq)))"

text \<open>
  \<open>mm_in_name\<close> and \<open>mm_out_name\<close>: the result code and the text left in the
  caller's buffer of \<open>sz\<close> bytes by \<open>strncpy(buf, name, sz-1); buf[sz-1] = 0\<close>. With
  \<open>sz = 0\<close> the count \<open>sz-1\<close> wraps round to the largest \<open>size_t\<close> and
  \<open>strncpy\<close> writes far past the buffer: the call does not return a result (\<open>None\<close>).
\<close>

definition alsa_name_of ::
    "mm__alsa_pi list \<Rightarrow> u32 \<Rightarrow> nat \<Rightarrow> (mm_result \<times> string option) option" where
  "alsa_name_of lst idx sz =
     (if length lst \<le> unat idx then Some (MM_OUT_OF_RANGE, None)
      else if sz = 0 then None
      else Some (MM_SUCCESS, Some (take (sz - 1) (pi_name (lst ! unat idx)))))"

definition alsa_mm_in_name ::
    "mm_context_alsa option \<Rightarrow> snd_seq_client list \<Rightarrow> u32 \<Rightarrow> bool \<Rightarrow> nat
      \<Rightarrow> (mm_result \<times> string option) option" where
  "alsa_mm_in_name c seq idx buf sz =
     (case c of
        None \<Rightarrow> Some (MM_INVALID_ARG, None)
      | Some cx \<Rightarrow>
          if \<not> initialized cx \<or> \<not> buf then Some (MM_INVALID_ARG, None)
          else alsa_name_of (alsa_enum_inputs cx seq) idx sz)"

definition alsa_mm_out_name ::
    "mm_context_alsa option \<Rightarrow> snd_seq_client list \<Rightarrow> u32 \<Rightarrow> bool \<Rightarrow> nat
      \<Rightarrow> (mm_result \<times> string option) option" where
  "alsa_mm_out_name c seq idx buf sz =
     (case c of
        None \<Rightarrow> Some (MM_INVALID_ARG, None)
      | Some cx \<Rightarrow>
          if \<not> initialized cx \<or> \<not> buf then Some (MM_INVALID_ARG, None)
          else alsa_name_of (alsa_enum_outputs cx seq) idx sz)"


section \<open>ALSA backend: the receive thread (minimidio.h, lines 423-432 and 1109-1259)\<close>

text \<open>
  A sequencer event as the library reads and writes it: its type, the \<open>note\<close> and
  \<open>control\<close> members of the data union, and the bytes of the \<open>ext\<close> member. The event
  types are ALSA's; those the library does not handle are \<open>SND_SEQ_EVENT_OTHER\<close>.
  \<open>control.value\<close> is a signed \<open>int\<close>.
\<close>

datatype snd_seq_event_type =
    SND_SEQ_EVENT_NOTEON | SND_SEQ_EVENT_NOTEOFF | SND_SEQ_EVENT_KEYPRESS
  | SND_SEQ_EVENT_CONTROLLER | SND_SEQ_EVENT_PGMCHANGE | SND_SEQ_EVENT_CHANPRESS
  | SND_SEQ_EVENT_PITCHBEND | SND_SEQ_EVENT_CLOCK | SND_SEQ_EVENT_START
  | SND_SEQ_EVENT_CONTINUE | SND_SEQ_EVENT_STOP | SND_SEQ_EVENT_SONGPOS
  | SND_SEQ_EVENT_QFRAME | SND_SEQ_EVENT_SONGSEL | SND_SEQ_EVENT_SENSING
  | SND_SEQ_EVENT_TUNE_REQUEST | SND_SEQ_EVENT_RESET | SND_SEQ_EVENT_SYSEX
  | SND_SEQ_EVENT_OTHER nat

record snd_seq_event =
  ev_type :: snd_seq_event_type
  note_channel :: u8
  note_note :: u8
  note_velocity :: u8
  control_channel :: u8
  control_param :: u32
  control_value :: u32
  ext :: "u8 list"

text \<open>\<open>memset(&ev, 0, sizeof(ev))\<close>; type 0 is an event type the library does not handle.\<close>

definition snd_seq_event_zero :: snd_seq_event where
  "snd_seq_event_zero =
     \<lparr>ev_type = SND_SEQ_EVENT_OTHER 0, note_channel = 0, note_note = 0, note_velocity = 0,
      control_channel = 0, control_param = 0, control_value = 0, ext = []\<rparr>"

text \<open>
  The ALSA device. The \<open>pthread_t\<close> handle is not modelled: creating and joining the
  receive thread appear among the calls below.
\<close>

record mm_device_alsa = "mm_context_alsa mm_device" +
  al_port_id :: int
  al_target_client :: int
  al_target_port :: int
  al_running :: bool
  al_wake_pipe :: "int \<times> int"
  al_sysex_buf :: "u8 list"
  al_sysex_pos :: nat

definition mm_device_alsa_zero :: mm_device_alsa where
  "mm_device_alsa_zero =
     \<lparr>ctx = None, callback = 0, userdata = 0, is_input = False, is_open = False,
      is_virtual = False, al_port_id = 0, al_target_client = 0, al_target_port = 0,
      al_running = False, al_wake_pipe = (0, 0),
      al_sysex_buf = replicate MM_SYSEX_BUF_SIZE 0, al_sysex_pos = 0\<rparr>"

text \<open>
  The reading of the monotonic clock, a \<open>struct timespec\<close> with two signed 64-bit
  fields, and the timestamp \<open>(double)ts.tv_sec + (double)ts.tv_nsec * 1e-9\<close>.
\<close>

record timespec =
  tv_sec :: "64 word"
  tv_nsec :: "64 word"

definition alsa_timestamp :: "timespec \<Rightarrow> real" where
  "alsa_timestamp t =
     dbl_add (binary64 (real_of_int (sint (tv_sec t))))
       (dbl_mul (binary64 (real_of_int (sint (tv_nsec t)))) (binary64 (1 / 10 ^ 9)))"

text \<open>
  The body of the drain loop of \<open>mm__alsa_recv_thread\<close> for one event: the \<open>switch\<close>
  on the event type. \<open>t\<close> is the time read from the monotonic clock; the result is the
  message handed to the callback, if any, and the device with its SysEx buffer updated.
\<close>

definition alsa_recv_event ::
    "timespec \<Rightarrow> mm_device_alsa \<Rightarrow> snd_seq_event \<Rightarrow> mm_message list \<times> mm_device_alsa" where
  "alsa_recv_event t dev ev =
     (let msg = mm_message_zero\<lparr>timestamp := alsa_timestamp t\<rparr> in
      case ev_type ev of
        SND_SEQ_EVENT_NOTEON \<Rightarrow>
          ([msg\<lparr>msg_type := (if 0 < note_velocity ev then MM_NOTE_ON else MM_NOTE_OFF),
                 channel := note_channel ev, data0 := note_note ev,
                 data1 := note_velocity ev\<rparr>], dev)
      | SND_SEQ_EVENT_NOTEOFF \<Rightarrow>
          ([msg\<lparr>msg_type := MM_NOTE_OFF, channel := note_channel ev, data0 := note_note ev,
                 data1 := note_velocity ev\<rparr>], dev)
      | SND_SEQ_EVENT_KEYPRESS \<Rightarrow>
          ([msg\<lparr>msg_type := MM_POLY_PRESSURE, channel := note_channel ev,
                 data0 := note_note ev, data1 := note_velocity ev\<rparr>], dev)
      | SND_SEQ_EVENT_CONTROLLER \<Rightarrow>
          ([msg\<lparr>msg_type := MM_CONTROL_CHANGE, channel := control_channel ev,
                 data0 := ucast (control_param ev), data1 := ucast (control_value ev)\<rparr>], dev)
      | SND_SEQ_EVENT_PGMCHANGE \<Rightarrow>
          ([msg\<lparr>msg_type := MM_PROGRAM_CHANGE, channel := control_channel ev,
                 data0 := ucast (control_value ev)\<rparr>], dev)
      | SND_SEQ_EVENT_CHANPRESS \<Rightarrow>
          ([msg\<lparr>msg_type := MM_CHANNEL_PRESSURE, channel := control_channel ev,
                 data0 := ucast (control_value ev)\<rparr>], dev)
      | SND_SEQ_EVENT_PITCHBEND \<Rightarrow>
          (let pb = control_value ev + 8192
           in ([msg\<lparr>msg_type := MM_PITCH_BEND, channel := control_channel ev,
                      data0 := ucast (pb AND 0x7F),
                      data1 := ucast (signed_drop_bit 7 pb AND 0x7F)\<rparr>], dev))
      | SND_SEQ_EVENT_CLOCK \<Rightarrow> ([msg\<lparr>msg_type := MM_CLOCK\<rparr>], dev)
      | SND_SEQ_EVENT_START \<Rightarrow> ([msg\<lparr>msg_type := MM_START\<rparr>], dev)
      | SND_SEQ_EVENT_CONTINUE \<Rightarrow> ([msg\<lparr>msg_type := MM_CONTINUE\<rparr>], dev)
      | SND_SEQ_EVENT_STOP \<Rightarrow> ([msg\<lparr>msg_type := MM_STOP\<rparr>], dev)
      | SND_SEQ_EVENT_SONGPOS \<Rightarrow>
          (let pos = (ucast (control_value ev) :: u16)
           in ([msg\<lparr>msg_type := MM_SONG_POSITION, song_position := pos,
                      data0 := ucast (pos AND 0x7F),
                      data1 := ucast (drop_bit 7 pos AND 0x7F)\<rparr>], dev))
      | SND_SEQ_EVENT_QFRAME \<Rightarrow>
          ([msg\<lparr>msg_type := MM_MTC_QUARTER_FRAME, data0 := ucast (control_value ev)\<rparr>], dev)
      | SND_SEQ_EVENT_SONGSEL \<Rightarrow>
          ([msg\<lparr>msg_type := MM_SONG_SELECT, data0 := ucast (control_value ev)\<rparr>], dev)
      | SND_SEQ_EVENT_SENSING \<Rightarrow> ([msg\<lparr>msg_type := MM_ACTIVE_SENSE\<rparr>], dev)
      | SND_SEQ_EVENT_TUNE_REQUEST \<Rightarrow> ([msg\<lparr>msg_type := MM_TUNE_REQUEST\<rparr>], dev)
      | SND_SEQ_EVENT_RESET \<Rightarrow> ([msg\<lparr>msg_type := MM_RESET\<rparr>], dev)
      | SND_SEQ_EVENT_SYSEX \<Rightarrow>
          (let d = ext ev;
               n = length d;
               dev1 = (if al_sysex_pos dev + n < MM_SYSEX_BUF_SIZE
                       then dev\<lparr>al_sysex_buf := take (al_sysex_pos dev) (al_sysex_buf dev) @ d
                                      @ drop (al_sysex_pos dev + n) (al_sysex_buf dev),
                                 al_sysex_pos := al_sysex_pos dev + n\<rparr>
                       else dev)
           in if 0 < n \<and> last d = 0xF7
              then ([msg\<lparr>msg_type := MM_SYSEX,
                           sysex := take (al_sysex_pos dev1) (al_sysex_buf dev1)\<rparr>],
                    dev1\<lparr>al_sysex_pos := 0\<rparr>)
              else ([], dev1))
      | SND_SEQ_EVENT_OTHER _ \<Rightarrow> ([], dev))"

text \<open>
  The drain loop: the pending events, each with the clock reading taken when it is
  fetched, are handled in order.
\<close>

fun alsa_drain ::
    "mm_device_alsa \<Rightarrow> (timespec \<times> snd_seq_event) list \<Rightarrow> mm_message list \<times> mm_device_alsa" where
  "alsa_drain dev [] = ([], dev)"
| "alsa_drain dev ((t, ev) # evs) =
     (let (ms, dev1) = alsa_recv_event t dev ev;
          (ms', dev2) = alsa_drain dev1 evs
      in (ms @ ms', dev2))"

text \<open>
  \<open>mm__alsa_recv_thread\<close>: the thread first reads the sequencer handle through the
  device's context pointer (no result, \<open>None\<close>, when that pointer is null) and allocates
  its poll descriptors with \<open>malloc\<close>; when that fails it ends at once. Then it handles
  the events that arrive while the device is running. (Polling, the wake pipe and the
  \<open>running\<close> flag belong to the thread's scheduling, which the model leaves out.)
\<close>

definition mm__alsa_recv_thread ::
    "bool \<Rightarrow> mm_device_alsa \<Rightarrow> (timespec \<times> snd_seq_event) list
      \<Rightarrow> (mm_message list \<times> mm_device_alsa) option" where
  "mm__alsa_recv_thread malloc_ok dev evs =
     (case ctx dev of
        None \<Rightarrow> None
      | Some _ \<Rightarrow> if \<not> malloc_ok then Some ([], dev) else Some (alsa_drain dev evs))"

section \<open>WinMM backend: the input callback (minimidio.h, lines 402-407 and 850-909)\<close>

text \<open>
  The WinMM device: the two handles, the SysEx buffer, and of the header \<open>sysex_hdr\<close>
  the two lengths the library sets.
\<close>

record mm_device_wm = "mm_context mm_device" +
  wm_in :: nat
  wm_out :: nat
  wm_sysex_hdr_dwBufferLength :: nat
  wm_sysex_hdr_dwBytesRecorded :: nat
  wm_sysex_buf :: "u8 list"

definition mm_device_wm_zero :: mm_device_wm where
  "mm_device_wm_zero =
     \<lparr>ctx = None, callback = 0, userdata = 0, is_input = False, is_open = False,
      is_virtual = False, wm_in = 0, wm_out = 0, wm_sysex_hdr_dwBufferLength = 0,
      wm_sysex_hdr_dwBytesRecorded = 0, wm_sysex_buf = replicate MM_SYSEX_BUF_SIZE 0\<rparr>"




section \<open>ALSA backend: devices (minimidio.h, lines 1261-1462)\<close>

text \<open>
  The calls a device operation makes to the sequencer, the thread library and the kernel,
  in order, and the answers the model takes as parameters: the clients the sequencer
  reports, the descriptors \<open>pipe\<close> returns (\<open>None\<close> when it fails) and the port id
  \<open>snd_seq_create_simple_port\<close> returns (negative when it fails). The first argument of
  a sequencer call is the sequencer handle. The name of a port is printed with
  \<open>snprintf\<close> into \<open>char portname[80]\<close>. The port type bits are those of
  \<open><alsa/seq.h>\<close>.
\<close>

datatype alsa_call =
    sys_pipe
  | sys_close int
  | sys_write int
  | snd_seq_create_simple_port nat string u32 u32
  | snd_seq_delete_port nat int
  | snd_seq_connect_from nat int int int
  | snd_seq_disconnect_from nat int int int
  | snd_seq_connect_to nat int int int
  | snd_seq_disconnect_to nat int int int
  | pthread_create
  | pthread_join
  | snd_seq_event_output nat int snd_seq_event
  | snd_seq_drain_output nat



text \<open>
  The outcome of an operation: the result code, the device as the operation leaves it and
  the calls made. The operations on an open device reach the sequencer handle through the
  device's context pointer, \<open>dev->ctx->al.seq\<close>; when that pointer is null the read is
  a null-pointer dereference and the operation returns no outcome (\<open>None\<close>). The open
  operations use the context they are given, which they have checked.
\<close>

type_synonym alsa_outcome = "mm_result \<times> mm_device_alsa option \<times> alsa_call list"






text \<open>
  \<open>mm__alsa_send_ev\<close>: the event is sent directly from the device's port to its
  subscribers and the output is drained, both on the sequencer of the device's context.
\<close>

definition mm__alsa_send_ev :: "mm_device_alsa \<Rightarrow> snd_seq_event \<Rightarrow> alsa_call list option" where
  "mm__alsa_send_ev d ev =
     (case ctx d of
        None \<Rightarrow> None
      | Some cx \<Rightarrow>
          Some [snd_seq_event_output (al_seq cx) (al_port_id d) ev,
                snd_seq_drain_output (al_seq cx)])"



definition alsa_mm_out_send_sysex ::
    "mm_device_alsa option \<Rightarrow> u8 list option \<Rightarrow> alsa_outcome option" where
  "alsa_mm_out_send_sysex dev data =
     (case dev of
        None \<Rightarrow> Some (MM_NOT_OPEN, dev, [])
      | Some d \<Rightarrow>
          if \<not> is_open d \<or> is_input d then Some (MM_NOT_OPEN, dev, [])
          else
            (case data of
               None \<Rightarrow> Some (MM_INVALID_ARG, dev, [])
             | Some bytes \<Rightarrow>
                 if length bytes = 0 \<or> MM_SYSEX_BUF_SIZE < length bytes
                 then Some (MM_INVALID_ARG, dev, [])
                 else
                   (let d1 = d\<lparr>al_sysex_buf := bytes @ drop (length bytes) (al_sysex_buf d)\<rparr>;
                        ev = snd_seq_event_zero
                               \<lparr>ev_type := SND_SEQ_EVENT_SYSEX,
                                ext := take (length bytes) (al_sysex_buf d1)\<rparr>
                    in case mm__alsa_send_ev d1 ev of
                         None \<Rightarrow> None
                       | Some calls \<Rightarrow> Some (MM_SUCCESS, Some d1, calls))))"




section \<open>WinMM backend: devices (minimidio.h, lines 911-1005)\<close>

text \<open>
  The WinMM calls an operation makes, in order (a call on an open device is given its
  handle), and the answers of the OS as parameters:
  the handle an open call returns (\<open>None\<close> unless it answers \<open>MMSYSERR_NOERROR\<close>),
  whether \<open>midiInStart\<close>, \<open>midiOutShortMsg\<close> and \<open>midiOutLongMsg\<close> answer
  \<open>MMSYSERR_NOERROR\<close>, and how often \<open>midiOutUnprepareHeader\<close> answers
  \<open>MIDIERR_STILLPLAYING\<close> before the transfer of a long message has ended.
\<close>

datatype wm_call =
    midiInOpen u32
  | midiInPrepareHeader nat
  | midiInAddBuffer nat
  | midiInStart nat
  | midiInStop nat
  | midiInUnprepareHeader nat
  | midiInClose nat
  | midiOutOpen u32
  | midiOutShortMsg nat u32
  | midiOutPrepareHeader nat
  | midiOutLongMsg nat "u8 list"
  | midiOutUnprepareHeader nat
  | Sleep
  | midiOutClose nat

record wm_env =
  opened :: "nat option"
  start_ok :: bool
  short_msg_ok :: bool
  long_msg_ok :: bool
  still_playing :: nat

type_synonym wm_outcome = "mm_result \<times> mm_device_wm option \<times> wm_call list"








text \<open>
  \<open>mm_out_send_sysex\<close> waits in \<open>while (midiOutUnprepareHeader(...) ==
  MIDIERR_STILLPLAYING) Sleep(1)\<close>: one \<open>Sleep\<close> for each such answer.
\<close>

definition wm_mm_out_send_sysex ::
    "wm_env \<Rightarrow> mm_device_wm option \<Rightarrow> u8 list option \<Rightarrow> wm_outcome" where
  "wm_mm_out_send_sysex env dev data =
     (case dev of
        None \<Rightarrow> (MM_NOT_OPEN, dev, [])
      | Some d \<Rightarrow>
          if \<not> is_open d \<or> is_input d then (MM_NOT_OPEN, dev, [])
          else
            (case data of
               None \<Rightarrow> (MM_INVALID_ARG, dev, [])
             | Some bytes \<Rightarrow>
                 if length bytes = 0 \<or> MM_SYSEX_BUF_SIZE < length bytes
                 then (MM_INVALID_ARG, dev, [])
                 else
                   (let d1 = d\<lparr>wm_sysex_buf := bytes @ drop (length bytes) (wm_sysex_buf d),
                                wm_sysex_hdr_dwBufferLength := length bytes,
                                wm_sysex_hdr_dwBytesRecorded := length bytes\<rparr>
                    in (if long_msg_ok env then MM_SUCCESS else MM_ERROR, Some d1,
                        [midiOutPrepareHeader (wm_out d),
                         midiOutLongMsg (wm_out d) (take (length bytes) (wm_sysex_buf d1))]
                        @ concat (replicate (still_playing env)
                                    [midiOutUnprepareHeader (wm_out d), Sleep])
                        @ [midiOutUnprepareHeader (wm_out d)]))))"





section \<open>Bit-level facts about bytes\<close>

text \<open>
  Equations between bytes are proved bit by bit: \<open>bit_word_eqI\<close> reduces them to the
  eight bit positions, which are then checked one at a time.
\<close>

lemma nat_lt8_cases: "n < (8::nat) \<Longrightarrow> n \<in> {0, 1, 2, 3, 4, 5, 6, 7}"
  by simp arith

lemma bit_times2: "bit (c * 2 :: u8) n \<longleftrightarrow> n \<noteq> 0 \<and> n < 8 \<and> bit c (n - 1)"
  using bit_double_iff [of c n]
  by (auto simp: mult.commute possible_bit_word dest: bit_imp_le_length)

lemma byte_join_nibbles: "(x AND 0x0F) OR push_bit 4 (drop_bit 4 x AND 0x0F) = (x::u8)"
  apply (rule bit_word_eqI)
  apply simp
  apply (drule nat_lt8_cases)
  apply (auto simp: bit_simps)
  done

lemma qf_nibble: "(push_bit 4 k OR (n AND 0x0F)) AND 0x0F = n AND (0x0F::u8)"
  apply (rule bit_word_eqI)
  apply simp
  apply (drule nat_lt8_cases)
  apply (auto simp: bit_simps)
  done

lemmas qf_nibbles =
  qf_nibble [of 1, simplified] qf_nibble [of 2, simplified] qf_nibble [of 3, simplified]
  qf_nibble [of 4, simplified] qf_nibble [of 5, simplified] qf_nibble [of 6, simplified]
  qf_nibble [of 7, simplified]

lemma qf_pieces:
  "drop_bit 4 (n AND 0x0F) AND 0x07 = (0::u8)"
  "drop_bit 4 (0x10 OR (n AND 0x0F)) AND 0x07 = (1::u8)"
  "drop_bit 4 (0x20 OR (n AND 0x0F)) AND 0x07 = (2::u8)"
  "drop_bit 4 (0x30 OR (n AND 0x0F)) AND 0x07 = (3::u8)"
  "drop_bit 4 (0x40 OR (n AND 0x0F)) AND 0x07 = (4::u8)"
  "drop_bit 4 (0x50 OR (n AND 0x0F)) AND 0x07 = (5::u8)"
  "drop_bit 4 (0x60 OR (n AND 0x0F)) AND 0x07 = (6::u8)"
  "drop_bit 4 (0x70 OR (n AND 0x0F)) AND 0x07 = (7::u8)"
  by simp_all

lemma u8_lt32: "h < (32::u8) \<Longrightarrow> h AND 0x1F = h"
  using less_mask_eq [of h 5] by (simp add: mask_eq_exp_minus_1)

lemma hours_join:
  assumes "h < (32::u8)"
  shows "(h AND 0x0F) OR
    push_bit 4 (((drop_bit 4 h AND 0x01 OR push_bit 1 r) AND 0x0F) AND 0x01) = h"
proof -
  have "(h AND 0x0F) OR
      push_bit 4 (((drop_bit 4 h AND 0x01 OR push_bit 1 r) AND 0x0F) AND 0x01) = h AND 0x1F"
    apply (rule bit_word_eqI)
    apply simp
    apply (drule nat_lt8_cases)
    apply (auto simp: bit_simps bit_0 bit_times2)
    done
  then show ?thesis using assms by (simp add: u8_lt32)
qed

lemma u32_lt4: "r < (4::u32) \<Longrightarrow> r \<in> {0, 1, 2, 3}"
proof -
  assume "r < 4"
  then have "unat r < 4" by (simp add: word_less_nat_alt)
  then have "unat r \<in> {0, 1, 2, 3}" by simp arith
  then show ?thesis by (auto simp: word_unat_eq_iff)
qed

lemma rate_bits:
  "drop_bit 1 ((drop_bit 4 (h::u8) AND 0x01 OR push_bit 1 (c AND 0x03)) AND 0x0F) AND (0x03::u8)
     = c AND 0x03"
  apply (rule bit_word_eqI)
  apply simp
  apply (drule nat_lt8_cases)
  apply (auto simp: bit_simps bit_0 bit_times2)
  done

lemma rate_extract:
  assumes "r < (4::u32)"
  shows "ucast (drop_bit 1 ((drop_bit 4 (h::u8) AND 0x01 OR push_bit 1 (ucast r AND 0x03)) AND 0x0F)
           AND (0x03::u8)) = r"
  using u32_lt4 [OF assms] by (auto simp: rate_bits)

section \<open>Rounding to binary64\<close>

text \<open>
  The rounding function does what its description says: \<open>bit_length\<close> counts binary
  digits, \<open>binary64_exponent\<close> names the binade of a positive number,
  \<open>binary64_round\<close> is within 1/2 of its argument and leaves integers alone, and a
  rounded number is within half a unit in the last place of the exact one.
\<close>

lemma bit_length_bounds:
  "0 < n \<Longrightarrow> (2::nat) ^ (bit_length n - 1) \<le> n \<and> n < 2 ^ bit_length n"
proof (induction n rule: bit_length.induct)
  case (1 n)
  show ?case
  proof (cases "n div 2 = 0")
    case True
    with 1(2) have "n = 1" by (cases n) auto
    then show ?thesis by (simp add: bit_length.simps)
  next
    case False
    then have p: "0 < n div 2" by simp
    from 1(2) have n0: "n \<noteq> 0" by simp
    from 1(1) [OF n0 p] have ih: "(2::nat) ^ (bit_length (n div 2) - 1) \<le> n div 2"
      "n div 2 < 2 ^ bit_length (n div 2)" by simp_all
    have bl: "bit_length n = Suc (bit_length (n div 2))" using n0 by (subst bit_length.simps) simp
    have pos: "0 < bit_length (n div 2)" using p by (subst bit_length.simps) simp
    then have sp: "(2::nat) ^ bit_length (n div 2) = 2 * 2 ^ (bit_length (n div 2) - 1)"
      by (cases "bit_length (n div 2)") simp_all
    from ih(1) have "2 * (2::nat) ^ (bit_length (n div 2) - 1) \<le> n" by arith
    then have l: "(2::nat) ^ bit_length (n div 2) \<le> n" by (simp only: sp)
    from ih(2) have u: "n < 2 * 2 ^ bit_length (n div 2)" by arith
    from l u show ?thesis by (simp add: bl)
  qed
qed

lemma bit_length_real:
  assumes "0 < n"
  shows "(2::real) ^ (bit_length n - 1) \<le> real n" "real n + 1 \<le> 2 ^ bit_length n"
    "0 < bit_length n"
proof -
  note b = bit_length_bounds [OF assms]
  from b have "real ((2::nat) ^ (bit_length n - 1)) \<le> real n" by (simp only: of_nat_le_iff)
  then show "(2::real) ^ (bit_length n - 1) \<le> real n" by simp
  from b have "n + 1 \<le> 2 ^ bit_length n" by simp
  then have "real (n + 1) \<le> real ((2::nat) ^ bit_length n)" by (simp only: of_nat_le_iff)
  then show "real n + 1 \<le> 2 ^ bit_length n" by simp
  from b assms show "0 < bit_length n" by (cases "bit_length n") auto
qed

lemma binary64_round_nearest: "\<bar>q - of_int (binary64_round q)\<bar> \<le> 1 / 2"
proof -
  have "0 \<le> q - of_int \<lfloor>q\<rfloor>" "q - of_int \<lfloor>q\<rfloor> < 1" by linarith+
  then show ?thesis by (auto simp: binary64_round_def Let_def)
qed

lemma binary64_exponent_ge1:
  assumes "1 \<le> a"
  shows "2 ^ nat (binary64_exponent a) \<le> a" "a < 2 ^ nat (binary64_exponent a + 1)"
    "0 \<le> binary64_exponent a"
proof -
  let ?n = "nat \<lfloor>a\<rfloor>"
  from assms have n: "0 < ?n" by simp
  note b = bit_length_real [OF n]
  have e: "binary64_exponent a = int (bit_length ?n) - 1"
    using assms by (simp add: binary64_exponent_def)
  then show "0 \<le> binary64_exponent a" using b(3) by simp
  have ne: "nat (binary64_exponent a) = bit_length ?n - 1" using e b(3) by simp
  have ne1: "nat (binary64_exponent a + 1) = bit_length ?n" using e b(3) by simp
  have fl: "real ?n \<le> a" "a < real ?n + 1" using assms by linarith+
  from b(1) fl(1) show "2 ^ nat (binary64_exponent a) \<le> a" unfolding ne by linarith
  from b(2) fl(2) show "a < 2 ^ nat (binary64_exponent a + 1)" unfolding ne1 by linarith
qed

lemma binary64_exponent_lt1:
  assumes "0 < a" "a < 1"
  shows "1 / 2 ^ nat (- binary64_exponent a) \<le> a" "a < 2 / 2 ^ nat (- binary64_exponent a)"
    "binary64_exponent a < 0"
proof -
  let ?y = "1 / a"
  let ?n = "nat (\<lceil>?y\<rceil> - 1)"
  from assms have y: "1 < ?y" by simp
  then have c: "2 \<le> \<lceil>?y\<rceil>" by linarith
  then have n: "0 < ?n" by simp
  note b = bit_length_real [OF n]
  have e: "binary64_exponent a = - int (bit_length ?n)"
    using assms by (simp add: binary64_exponent_def)
  then show "binary64_exponent a < 0" using b(3) by simp
  have ne: "nat (- binary64_exponent a) = bit_length ?n" using e by simp
  have cl: "?y \<le> real ?n + 1" "real ?n < ?y" using c by linarith+
  from b(2) cl(1) have u: "?y \<le> 2 ^ bit_length ?n" by linarith
  from b(1) cl(2) have l: "2 ^ (bit_length ?n - 1) < ?y" by linarith
  from u assms(1) have "1 \<le> a * 2 ^ bit_length ?n"
    by (simp add: field_simps)
  then show "1 / 2 ^ nat (- binary64_exponent a) \<le> a" by (simp add: ne field_simps)
  have sp: "(2::real) ^ bit_length ?n = 2 * 2 ^ (bit_length ?n - 1)"
    using b(3) by (cases "bit_length ?n") simp_all
  from l assms(1) have "a * 2 ^ (bit_length ?n - 1) < 1" by (simp add: field_simps)
  then have "a * 2 ^ bit_length ?n < 2" by (simp add: sp)
  then show "a < 2 / 2 ^ nat (- binary64_exponent a)" by (simp add: ne field_simps)
qed


lemma binary64_round_int: "binary64_round (of_int k) = k"
  by (simp add: binary64_round_def)

lemma binary64_error:
  assumes "x \<noteq> 0" and "e = max (binary64_exponent \<bar>x\<bar>) (- 1022)"
  shows "e \<le> 52 \<Longrightarrow> \<bar>binary64 x - x\<bar> \<le> 1 / 2 / 2 ^ nat (52 - e)"
    and "52 < e \<Longrightarrow> \<bar>binary64 x - x\<bar> \<le> 1 / 2 * 2 ^ nat (e - 52)"
proof -
  have s: "\<bar>(if x < 0 then - v else v) - x\<bar> = \<bar>v - \<bar>x\<bar>\<bar>" for v :: real
    by (simp add: abs_if)
  {
    assume le: "e \<le> 52"
    let ?p = "(2::real) ^ nat (52 - e)"
    let ?k = "binary64_round (\<bar>x\<bar> * ?p)"
    have p: "0 < ?p" by simp
    have b: "binary64 x = (if x < 0 then - (of_int ?k / ?p) else of_int ?k / ?p)"
      unfolding binary64_def Let_def assms(2) [symmetric] using assms(1) le
      by (simp only: if_False if_True)
    have "\<bar>of_int ?k / ?p - \<bar>x\<bar>\<bar> = \<bar>\<bar>x\<bar> * ?p - of_int ?k\<bar> / ?p"
      using p by (simp add: field_simps abs_minus_commute)
    also have "\<dots> \<le> (1 / 2) / ?p"
      by (rule divide_right_mono [OF binary64_round_nearest]) simp
    finally show "\<bar>binary64 x - x\<bar> \<le> 1 / 2 / ?p" by (simp only: b s)
  }
  {
    assume gt: "52 < e"
    let ?p = "(2::real) ^ nat (e - 52)"
    let ?k = "binary64_round (\<bar>x\<bar> / ?p)"
    have p: "0 < ?p" by simp
    from gt have ng: "\<not> e \<le> 52" by simp
    have b: "binary64 x = (if x < 0 then - (of_int ?k * ?p) else of_int ?k * ?p)"
      unfolding binary64_def Let_def assms(2) [symmetric] using assms(1) ng
      by (simp only: if_False if_True)
    have "\<bar>of_int ?k * ?p - \<bar>x\<bar>\<bar> = \<bar>\<bar>x\<bar> / ?p - of_int ?k\<bar> * ?p"
    proof -
      have "of_int ?k * ?p - \<bar>x\<bar> = (of_int ?k - \<bar>x\<bar> / ?p) * ?p" using p by (simp add: field_simps)
      then show ?thesis using p by (simp add: abs_mult abs_minus_commute)
    qed
    also have "\<dots> \<le> (1 / 2) * ?p"
      by (rule mult_right_mono [OF binary64_round_nearest]) simp
    finally show "\<bar>binary64 x - x\<bar> \<le> 1 / 2 * ?p" by (simp only: b s)
  }
qed

text \<open>
  A positive number in the normal range is rounded in the binade its exponent names; the
  constants used below are evaluated with this rule.
\<close>

lemma binary64_normal:
  assumes "0 < x" and "binary64_exponent x = e" and "- 1022 \<le> e" and "e \<le> 52"
    and "binary64_round (x * 2 ^ nat (52 - e)) = k"
  shows "binary64 x = of_int k / 2 ^ nat (52 - e)"
  using assms by (simp add: binary64_def Let_def)

lemmas binary64_eval = binary64_exponent_def bit_length.simps binary64_round_def

lemma binary64_0: "binary64 0 = 0"
  by (simp add: binary64_def)

lemma binary64_180: "binary64 180 = 180"
proof -
  have "binary64 180 = of_int 6333186975989760 / 2 ^ nat (52 - 7)"
    by (rule binary64_normal) (simp_all add: binary64_eval)
  then show ?thesis by simp
qed

lemma binary64_182: "binary64 182 = 182"
proof -
  have "binary64 182 = of_int 6403555720167424 / 2 ^ nat (52 - 7)"
    by (rule binary64_normal) (simp_all add: binary64_eval)
  then show ?thesis by simp
qed

lemma binary64_thirtieth: "binary64 (1 / 30) = 4803839602528529 / 2 ^ 57"
proof -
  have "binary64 (1 / 30) = of_int 4803839602528529 / 2 ^ nat (52 - (- 5))"
    by (rule binary64_normal) (simp_all add: binary64_eval)
  then show ?thesis by simp
qed

lemma binary64_sum: "binary64 (182 + 4803839602528529 / 2 ^ 57) = 6404728532570385 / 2 ^ 45"
proof -
  have "binary64 (182 + 4803839602528529 / 2 ^ 57) = of_int 6404728532570385 / 2 ^ nat (52 - 7)"
    by (rule binary64_normal) (simp_all add: binary64_eval)
  then show ?thesis by simp
qed

text \<open>The double that the literal \<open>29.97\<close> denotes, \<open>0x1.df851eb851eb8p+4\<close>.\<close>

lemma binary64_2997: "binary64 (2997 / 100) = 1054475631502295 / 2 ^ 45"
proof -
  have "binary64 (2997 / 100) = of_int 8435805052018360 / 2 ^ nat (52 - 4)"
    by (rule binary64_normal) (simp_all add: binary64_eval)
  then show ?thesis by simp
qed

lemma to_seconds_zero:
  "mm_mtc_to_seconds \<lparr>hours = 0, minutes = 0, seconds = 0, frames = 0, rate = MM_MTC_24FPS\<rparr> = 0"
  by (simp add: mm_mtc_to_seconds_def dbl_add_def dbl_mul_def dbl_div_def binary64_0)

text \<open>
  \<open>00:03:02.01\<close> at 30 fps: the products and the first two sums are the integers 0, 180,
  180 and 182; the quotient \<open>1.0 / 30.0\<close> is \<open>0x1.1111111111111p-5\<close>, and the last sum
  is \<open>0x1.6c11111111111p+7\<close>.
\<close>

lemma to_seconds_s4:
  "mm_mtc_to_seconds \<lparr>hours = 0, minutes = 3, seconds = 2, frames = 1, rate = MM_MTC_30FPS\<rparr>
     = 6404728532570385 / 2 ^ 45"
  by (simp add: mm_mtc_to_seconds_def dbl_add_def dbl_mul_def dbl_div_def mtc_fps_def
      mtc_rates_def MM_MTC_30FPS_def binary64_0 binary64_180 binary64_182 binary64_thirtieth
      binary64_sum [simplified])

section \<open>MTC reassembly\<close>

text \<open>
  Eight pushes whose upper nibbles are 0 to 7 in order, into a state whose count is 0: the
  first seven return 0, the eighth returns 1 with the frame assembled from the lower
  nibbles, whatever the slots held before.
\<close>

lemma length8_shape:
  assumes "length (xs :: u8 list) = 8"
  shows "\<exists>a b c d e f g h. xs = [a, b, c, d, e, f, g, h]"
  using assms by (auto simp: numeral_eq_Suc length_Suc_conv)

lemma mtc_push_eight_from:
  assumes "count s = 0" "length (pieces s) = 8"
    and "drop_bit 4 q0 AND 0x07 = 0" "drop_bit 4 q1 AND 0x07 = 1" "drop_bit 4 q2 AND 0x07 = 2"
    "drop_bit 4 q3 AND 0x07 = 3" "drop_bit 4 q4 AND 0x07 = 4" "drop_bit 4 q5 AND 0x07 = 5"
    "drop_bit 4 q6 AND 0x07 = 6" "drop_bit 4 q7 AND 0x07 = 7"
  shows "mtc_push_all s [q0, q1, q2, q3, q4, q5, q6, q7] =
    (\<lparr>pieces = [q0 AND 0x0F, q1 AND 0x0F, q2 AND 0x0F, q3 AND 0x0F,
                 q4 AND 0x0F, q5 AND 0x0F, q6 AND 0x0F, q7 AND 0x0F], count = 0\<rparr>,
     [None, None, None, None, None, None, None,
      Some \<lparr>hours = (q6 AND 0x0F) OR push_bit 4 ((q7 AND 0x0F) AND 0x01),
            minutes = (q4 AND 0x0F) OR push_bit 4 (q5 AND 0x0F),
            seconds = (q2 AND 0x0F) OR push_bit 4 (q3 AND 0x0F),
            frames = (q0 AND 0x0F) OR push_bit 4 (q1 AND 0x0F),
            rate = ucast (drop_bit 1 (q7 AND 0x0F) AND 0x03)\<rparr>])"
proof -
  from length8_shape [OF assms(2)] obtain a b c d e f g h
    where p: "pieces s = [a, b, c, d, e, f, g, h]" by blast
  show ?thesis using assms(1,3-) p by (simp add: mm_mtc_push_def Let_def)
qed


lemma mtc_roundtrip_from:
  assumes c: "count s = 0" and l: "length (pieces s) = 8"
    and h: "hours f < 32" and r: "rate f < 4"
  shows "mtc_push_all s (mtc_quarter_frames f) =
    (\<lparr>pieces = map (\<lambda>q. q AND 0x0F) (mtc_quarter_frames f), count = 0\<rparr>,
     [None, None, None, None, None, None, None, Some f])"
proof -
  have fr: "((frames f AND 0x0F) AND 0x0F) OR
      push_bit 4 ((0x10 OR (drop_bit 4 (frames f) AND 0x0F)) AND 0x0F) = frames f"
    by (simp only: qf_nibbles and.right_idem byte_join_nibbles)
  have se: "((0x20 OR (seconds f AND 0x0F)) AND 0x0F) OR
      push_bit 4 ((0x30 OR (drop_bit 4 (seconds f) AND 0x0F)) AND 0x0F) = seconds f"
    by (simp only: qf_nibbles and.right_idem byte_join_nibbles)
  have mi: "((0x40 OR (minutes f AND 0x0F)) AND 0x0F) OR
      push_bit 4 ((0x50 OR (drop_bit 4 (minutes f) AND 0x0F)) AND 0x0F) = minutes f"
    by (simp only: qf_nibbles and.right_idem byte_join_nibbles)
  have ho: "((0x60 OR (hours f AND 0x0F)) AND 0x0F) OR
      push_bit 4 (((0x70 OR ((drop_bit 4 (hours f) AND 0x01
          OR push_bit 1 (ucast (rate f) AND 0x03)) AND 0x0F)) AND 0x0F) AND 0x01) = hours f"
    by (simp only: qf_nibbles and.right_idem hours_join [OF h])
  have ra: "ucast (drop_bit 1 ((0x70 OR ((drop_bit 4 (hours f) AND 0x01
          OR push_bit 1 (ucast (rate f) AND 0x03)) AND 0x0F)) AND 0x0F) AND (0x03::u8)) = rate f"
    by (simp only: qf_nibbles and.right_idem rate_extract [OF r])
  have "mtc_push_all s (mtc_quarter_frames f) =
    (\<lparr>pieces = map (\<lambda>q. q AND 0x0F) (mtc_quarter_frames f), count = 0\<rparr>,
     [None, None, None, None, None, None, None,
      Some \<lparr>hours = hours f, minutes = minutes f, seconds = seconds f,
            frames = frames f, rate = rate f\<rparr>])"
    unfolding mtc_quarter_frames_def
    by (simp only: mtc_push_eight_from [OF c l qf_pieces] list.map fr se mi ho ra)
  then show ?thesis by simp
qed

lemma mtc_frame_valid_bits:
  assumes "mtc_frame_valid f"
  shows "hours f < 32" "rate f < 4"
  using assms
  by (auto simp: mtc_frame_valid_def word_less_nat_alt MM_MTC_24FPS_def MM_MTC_25FPS_def
      MM_MTC_30FPS_DROP_def MM_MTC_30FPS_def)

text \<open>
  C4. For every frame with \<open>frames < rate_fps(rate)\<close>, \<open>hours < 24\<close>, \<open>minutes < 60\<close>,
  \<open>seconds < 60\<close> and one of the four rates, pushing its eight quarter-frame pieces in order
  into a zero-initialised state returns 0 on the first seven pushes and 1 with exactly that
  frame on the eighth, and the state is empty afterwards: its count of received pieces is 0
  again, and the pieces of any further frame are reassembled from it as from a
  zero-initialised state (the slots keep the last nibbles until the next pieces overwrite
  them).
\<close>

theorem mtc_reassembly:
  assumes "mtc_frame_valid f"
  shows "\<exists>s'. mtc_push_all mtc_zero_state (mtc_quarter_frames f) =
           (s', [None, None, None, None, None, None, None, Some f])
         \<and> count s' = 0
         \<and> (\<forall>g. mtc_frame_valid g \<longrightarrow>
               snd (mtc_push_all s' (mtc_quarter_frames g)) =
                 [None, None, None, None, None, None, None, Some g])"
proof -
  let ?s' = "\<lparr>pieces = map (\<lambda>q. q AND 0x0F) (mtc_quarter_frames f), count = 0\<rparr>"
  have z: "count mtc_zero_state = 0" "length (pieces mtc_zero_state) = 8"
    by (simp_all add: mtc_zero_state_def)
  have 1: "mtc_push_all mtc_zero_state (mtc_quarter_frames f) =
      (?s', [None, None, None, None, None, None, None, Some f])"
    by (rule mtc_roundtrip_from [OF z mtc_frame_valid_bits [OF assms]])
  have s': "count ?s' = 0" "length (pieces ?s') = 8"
    by (simp_all add: mtc_quarter_frames_def)
  have 2: "\<forall>g. mtc_frame_valid g \<longrightarrow>
      snd (mtc_push_all ?s' (mtc_quarter_frames g)) =
        [None, None, None, None, None, None, None, Some g]"
    by (simp add: mtc_roundtrip_from [OF s' mtc_frame_valid_bits])
  from 1 s'(1) 2 show ?thesis by blast
qed

theorem mtc_reassembly_witness:
  "mtc_push_all mtc_zero_state
     (mtc_quarter_frames \<lparr>hours = 23, minutes = 59, seconds = 58, frames = 29,
                           rate = MM_MTC_30FPS_DROP\<rparr>) =
   (\<lparr>pieces = [13, 1, 10, 3, 11, 3, 7, 5], count = 0\<rparr>,
    [None, None, None, None, None, None, None,
     Some \<lparr>hours = 23, minutes = 59, seconds = 58, frames = 29, rate = MM_MTC_30FPS_DROP\<rparr>])
   \<and> snd (mtc_push_all \<lparr>pieces = [13, 1, 10, 3, 11, 3, 7, 5], count = 0\<rparr>
       (mtc_quarter_frames \<lparr>hours = 0, minutes = 3, seconds = 2, frames = 1,
                             rate = MM_MTC_30FPS\<rparr>)) =
    [None, None, None, None, None, None, None,
     Some \<lparr>hours = 0, minutes = 3, seconds = 2, frames = 1, rate = MM_MTC_30FPS\<rparr>]"
proof -
  let ?f = "\<lparr>hours = 23, minutes = 59, seconds = 58, frames = 29, rate = MM_MTC_30FPS_DROP\<rparr>"
  let ?g = "\<lparr>hours = 0, minutes = 3, seconds = 2, frames = 1, rate = MM_MTC_30FPS\<rparr>"
  have 1: "mtc_frame_valid ?f"
    by (simp add: mtc_frame_valid_def mtc_fps_def mtc_rates_def MM_MTC_30FPS_DROP_def
        binary64_2997)
  have 2: "mtc_frame_valid ?g"
    by (simp add: mtc_frame_valid_def mtc_fps_def mtc_rates_def MM_MTC_30FPS_def)
  from mtc_reassembly [OF 1] obtain s' where
    s: "mtc_push_all mtc_zero_state (mtc_quarter_frames ?f) =
          (s', [None, None, None, None, None, None, None, Some ?f])"
    and g: "\<forall>g. mtc_frame_valid g \<longrightarrow>
          snd (mtc_push_all s' (mtc_quarter_frames g)) =
            [None, None, None, None, None, None, None, Some g]" by blast
  have "fst (mtc_push_all mtc_zero_state (mtc_quarter_frames ?f)) =
      \<lparr>pieces = [13, 1, 10, 3, 11, 3, 7, 5], count = 0\<rparr>"
    by (simp add: mtc_quarter_frames_def mtc_zero_state_def mm_mtc_push_def
        MM_MTC_30FPS_DROP_def)
  with s have s': "s' = \<lparr>pieces = [13, 1, 10, 3, 11, 3, 7, 5], count = 0\<rparr>" by simp
  from g 2 have "snd (mtc_push_all s' (mtc_quarter_frames ?g)) =
      [None, None, None, None, None, None, None, Some ?g]" by blast
  with s s' show ?thesis by simp
qed

text \<open>
  C5 (scenario S4), as the code computes it. The eight bytes of the scenario all carry the
  nibble 0, so they assemble the all-zero frame at 24 fps, whose time is 0. The frame
  \<open>00:03:02.01\<close> at 30 fps is what the bytes \<open>01 10 22 30 43 50 60 76\<close> assemble; for it
  \<open>mm_mtc_to_seconds\<close> returns the double \<open>6404728532570385 / 2^45\<close>
  (\<open>0x1.6c11111111111p+7\<close>), which lies within \<open>2^-46\<close>, half a unit in the last place,
  of \<open>3 * 60 + 2 + 1/30 = 182 + 1/30\<close>.
\<close>

theorem mtc_scenario_s4:
  "mtc_push_all mtc_zero_state [0x00, 0x10, 0x00, 0x20, 0x00, 0x30, 0x00, 0x70] =
     (mtc_zero_state,
      [None, None, None, None, None, None, None,
       Some \<lparr>hours = 0, minutes = 0, seconds = 0, frames = 0, rate = MM_MTC_24FPS\<rparr>])
   \<and> mm_mtc_to_seconds \<lparr>hours = 0, minutes = 0, seconds = 0, frames = 0, rate = MM_MTC_24FPS\<rparr>
       = 0
   \<and> mtc_push_all mtc_zero_state [0x01, 0x10, 0x22, 0x30, 0x43, 0x50, 0x60, 0x76] =
     (\<lparr>pieces = [1, 0, 2, 0, 3, 0, 0, 6], count = 0\<rparr>,
      [None, None, None, None, None, None, None,
       Some \<lparr>hours = 0, minutes = 3, seconds = 2, frames = 1, rate = MM_MTC_30FPS\<rparr>])
   \<and> mm_mtc_to_seconds \<lparr>hours = 0, minutes = 3, seconds = 2, frames = 1, rate = MM_MTC_30FPS\<rparr>
       = 6404728532570385 / 2 ^ 45
   \<and> \<bar>mm_mtc_to_seconds \<lparr>hours = 0, minutes = 3, seconds = 2, frames = 1, rate = MM_MTC_30FPS\<rparr>
        - (182 + 1 / 30)\<bar> < 1 / 2 ^ 46"
  by (simp add: to_seconds_zero to_seconds_s4)
    (simp add: mtc_zero_state_def mm_mtc_push_def MM_MTC_30FPS_def MM_MTC_24FPS_def)

theorem mtc_scenario_s4_counterexample:
  "snd (mtc_push_all mtc_zero_state [0x00, 0x10, 0x00, 0x20, 0x00, 0x30, 0x00, 0x70]) \<noteq>
     [None, None, None, None, None, None, None,
      Some \<lparr>hours = 0, minutes = 3, seconds = 2, frames = 1, rate = MM_MTC_30FPS\<rparr>]
   \<and> mm_mtc_to_seconds \<lparr>hours = 0, minutes = 3, seconds = 2, frames = 1, rate = MM_MTC_30FPS\<rparr>
       \<noteq> 183 + 1 / 30
   \<and> mm_mtc_to_seconds \<lparr>hours = 0, minutes = 3, seconds = 2, frames = 1, rate = MM_MTC_30FPS\<rparr>
       < 183"
  by (simp add: to_seconds_s4)
    (simp add: mtc_zero_state_def mm_mtc_push_def MM_MTC_30FPS_def)

section \<open>Result strings\<close>

lemma sint_range8:
  assumes "\<not> (i <s 0)" "\<not> (8 \<le>s i)"
  shows "(i::32 word) \<in> {0, 1, 2, 3, 4, 5, 6, 7}"
proof -
  from assms have "0 \<le> sint i" "sint i < 8"
    by (simp_all add: word_sless_alt word_sle_eq)
  then have "sint i \<in> {0, 1, 2, 3, 4, 5, 6, 7}" by simp arith
  moreover have conv: "\<And>k. sint i = k \<Longrightarrow> i = word_of_int k" by auto
  ultimately show ?thesis by (auto dest!: conv)
qed

lemma neg_code_cases:
  assumes "- r \<in> {0, 1, 2, 3, 4, 5, 6, 7}"
  shows "(r :: 32 word) \<in> {0, - 1, - 2, - 3, - 4, - 5, - 6, - 7}"
proof -
  have "r = - (- r)" by simp
  with assms show ?thesis
    by (metis (no_types, lifting) insert_iff minus_zero neg_equal_iff_equal singletonD)
qed

text \<open>
  C9. \<open>mm_result_string\<close> is total and never reads outside its table (the result is never
  \<open>None\<close>): each of the eight result codes, \<open>MM_SUCCESS = 0\<close> down to
  \<open>MM_ALLOC_FAILED = -7\<close>, gets its own name, and every other 32-bit value gets
  \<open>"MM_UNKNOWN"\<close>.
\<close>

theorem mm_result_string_total:
  "mm_result_string r = Some
     (if r = MM_SUCCESS then ''MM_SUCCESS''
      else if r = MM_ERROR then ''MM_ERROR''
      else if r = MM_INVALID_ARG then ''MM_INVALID_ARG''
      else if r = MM_NO_BACKEND then ''MM_NO_BACKEND''
      else if r = MM_OUT_OF_RANGE then ''MM_OUT_OF_RANGE''
      else if r = MM_ALREADY_OPEN then ''MM_ALREADY_OPEN''
      else if r = MM_NOT_OPEN then ''MM_NOT_OPEN''
      else if r = MM_ALLOC_FAILED then ''MM_ALLOC_FAILED''
      else ''MM_UNKNOWN'')"
proof (cases "r \<in> {0, - 1, - 2, - 3, - 4, - 5, - 6, - 7}")
  case True
  then show ?thesis
    by (auto simp: mm_result_string_def mm__result_strings_def array_read_def
        mm_result_defs word_sless_alt word_sle_eq)
next
  case False
  then have "- r <s 0 \<or> 8 \<le>s - r"
    using sint_range8 [of "- r"] neg_code_cases [of r] by blast
  with False show ?thesis
    by (auto simp: mm_result_string_def mm__result_strings_def mm_result_defs)
qed

section \<open>The read procedure on well-formed data\<close>

lemma u8_lt16_cases: "c < (16::u8) \<Longrightarrow> c \<in> {0, 1, 2, 3, 4, 5, 6, 7, 8, 9, 10, 11, 12, 13, 14, 15}"
proof -
  assume "c < 16"
  then have "unat c < 16" by (simp add: word_less_nat_alt)
  then have "unat c \<in> {0, 1, 2, 3, 4, 5, 6, 7, 8, 9, 10, 11, 12, 13, 14, 15}" by simp arith
  then show ?thesis by (auto simp: word_unat_eq_iff)
qed

lemma high_nibble_idem: "drop_bit 4 (s::u8) AND 0x0F = drop_bit 4 s"
  apply (rule bit_word_eqI)
  apply simp
  apply (drule nat_lt8_cases)
  apply (auto simp: bit_simps dest: bit_imp_le_length)
  done

lemma chan_nibble:
  assumes "0x80 \<le> s" "s < (0xF0::u8)"
  shows "drop_bit 4 s \<in> {8, 9, 0xA, 0xB, 0xC, 0xD, 0xE}"
proof -
  from assms have "128 \<le> unat s" "unat s < 240" by (simp_all add: word_le_nat_alt word_less_nat_alt)
  then have "8 \<le> unat s div 16" "unat s div 16 < 15" by arith+
  then have "unat s div 16 \<in> {8, 9, 10, 11, 12, 13, 14}" by simp arith
  moreover have "unat (drop_bit 4 s) = unat s div 16" by (simp add: unat_drop_bit_eq drop_bit_eq_div unat_div)
  ultimately show ?thesis by (auto simp: word_unat_eq_iff)
qed


lemma below_F0:
  assumes "s < (0xF0::u8)"
  shows "\<not> 0xF8 \<le> s" "s \<noteq> 0xF0" "\<not> 0xF1 \<le> s"
  using assms by (auto simp: word_le_nat_alt word_less_nat_alt)

lemma cm_step_chan3:
  assumes "0x80 \<le> s" "s < 0xF0" "drop_bit 4 s \<noteq> 0xC" "drop_bit 4 s \<noteq> 0xD"
  shows "cm_step ts s (d0 # d1 # rest) =
    (Some (mm_message_zero\<lparr>timestamp := ts, msg_type := ucast (drop_bit 4 s),
             channel := s AND 0x0F, data0 := d0, data1 := d1\<rparr>), rest)"
  using chan_nibble [OF assms(1,2)] assms below_F0 [OF assms(2)]
  by (auto simp: cm_step_def high_nibble_idem mm_type_defs)

lemma cm_step_chan2:
  assumes "0x80 \<le> s" "s < 0xF0" "drop_bit 4 s = 0xC \<or> drop_bit 4 s = 0xD"
  shows "cm_step ts s (d0 # rest) =
    (Some (mm_message_zero\<lparr>timestamp := ts, msg_type := ucast (drop_bit 4 s),
             channel := s AND 0x0F, data0 := d0\<rparr>), rest)"
  using assms below_F0 [OF assms(2)]
  by (auto simp: cm_step_def high_nibble_idem mm_type_defs)

lemma sysex_scan_body:
  "0xF7 \<notin> set body \<Longrightarrow> sysex_scan (body @ 0xF7 # rest) = (body @ [0xF7], rest)"
  by (induction body) auto

lemma data_bytes_no_F7: "data_bytes ds \<Longrightarrow> 0xF7 \<notin> set ds"
  by (auto simp: data_bytes_def list_all_iff)

lemma cm_step_sysex:
  assumes "data_bytes body"
  shows "cm_step ts 0xF0 (body @ 0xF7 # rest) =
    (Some (mm_message_zero\<lparr>timestamp := ts, msg_type := MM_SYSEX,
             sysex := 0xF0 # body @ [0xF7]\<rparr>), rest)"
  using sysex_scan_body [OF data_bytes_no_F7 [OF assms], of rest]
  by (simp add: cm_step_def)








lemma chan_status:
  assumes "c < 16" "k \<in> {8, 9, 0xA, 0xB, 0xC, 0xD, 0xE}"
  shows "0x80 \<le> push_bit 4 k OR (c AND 0x0F)" "push_bit 4 k OR (c AND 0x0F) < 0xF0"
    "drop_bit 4 (push_bit 4 k OR (c AND 0x0F)) = k" "(push_bit 4 k OR (c AND 0x0F)) AND 0x0F = (c::u8)"
  using u8_lt16_cases [OF assms(1)] assms(2) by auto


lemma cm_parse_chan3:
  assumes "c < 16" "k \<in> {8, 9, 0xA, 0xB, 0xE}"
  shows "cm_parse ts [push_bit 4 k OR (c AND 0x0F), d0, d1] =
    [mm_message_zero\<lparr>timestamp := ts, msg_type := ucast k, channel := c, data0 := d0, data1 := d1\<rparr>]"
proof -
  from assms(2) have k: "k \<in> {8, 9, 0xA, 0xB, 0xC, 0xD, 0xE}" "k \<noteq> 0xC" "k \<noteq> 0xD" by auto
  note cs = chan_status [OF assms(1) k(1)]
  from cs(3) k(2,3) have n: "drop_bit 4 (push_bit 4 k OR (c AND 0x0F)) \<noteq> 0xC"
    "drop_bit 4 (push_bit 4 k OR (c AND 0x0F)) \<noteq> 0xD" by simp_all
  have "cm_step ts (push_bit 4 k OR (c AND 0x0F)) (d0 # d1 # []) =
    (Some (mm_message_zero\<lparr>timestamp := ts, msg_type := ucast k, channel := c, data0 := d0, data1 := d1\<rparr>), [])"
    using cm_step_chan3 [OF cs(1) cs(2) n, of ts d0 d1 "[]"] by (simp only: cs(3) cs(4))
  then show ?thesis by simp
qed

lemma cm_parse_chan2:
  assumes "c < 16" "k \<in> {0xC, 0xD}"
  shows "cm_parse ts [push_bit 4 k OR (c AND 0x0F), d0] =
    [mm_message_zero\<lparr>timestamp := ts, msg_type := ucast k, channel := c, data0 := d0\<rparr>]"
proof -
  from assms(2) have k: "k \<in> {8, 9, 0xA, 0xB, 0xC, 0xD, 0xE}" "k = 0xC \<or> k = 0xD" by auto
  note cs = chan_status [OF assms(1) k(1)]
  from cs(3) k(2) have n: "drop_bit 4 (push_bit 4 k OR (c AND 0x0F)) = 0xC
      \<or> drop_bit 4 (push_bit 4 k OR (c AND 0x0F)) = 0xD" by simp
  have "cm_step ts (push_bit 4 k OR (c AND 0x0F)) (d0 # []) =
    (Some (mm_message_zero\<lparr>timestamp := ts, msg_type := ucast k, channel := c, data0 := d0\<rparr>), [])"
    using cm_step_chan2 [OF cs(1) cs(2) n, of ts d0 "[]"] by (simp only: cs(3) cs(4))
  then show ?thesis by simp
qed

lemma nat_lt16_cases:
  "n < (16::nat) \<Longrightarrow> n \<in> {0, 1, 2, 3, 4, 5, 6, 7, 8, 9, 10, 11, 12, 13, 14, 15}"
  by simp arith

lemma u16_lt16384: "p < (16384::u16) \<Longrightarrow> p AND 0x3FFF = p"
  using less_mask_eq [of p 14] by (simp add: mask_eq_exp_minus_1)

lemma spp_bits:
  "ucast (ucast (p AND 0x7F) :: u8) OR push_bit 7 (ucast (ucast (drop_bit 7 p AND 0x7F) :: u8))
     = p AND (0x3FFF::u16)"
  apply (rule bit_word_eqI)
  apply simp
  apply (drule nat_lt16_cases)
  apply (auto simp: bit_simps)
  done

lemma spp_join:
  assumes "p < (16384::u16)"
  shows "ucast (ucast (p AND 0x7F) :: u8) OR push_bit 7 (ucast (ucast (drop_bit 7 p AND 0x7F) :: u8)) = p"
  using spp_bits [of p] u16_lt16384 [OF assms] by simp

text \<open>
  A SysEx goes out through \<open>mm_out_send_sysex\<close>, which hands the caller's bytes to the OS
  unchanged; read back, a complete SysEx is one message whose slice is those bytes.
\<close>

lemma sysex_roundtrip:
  assumes "data_bytes body"
  shows "cm_parse ts (0xF0 # body @ [0xF7]) =
    [mm_message_zero\<lparr>timestamp := ts, msg_type := MM_SYSEX, sysex := 0xF0 # body @ [0xF7]\<rparr>]"
  using cm_step_sysex [OF assms, of ts "[]"] by simp

lemma send_raw_fits:
  assumes "mm_out_send_raw m = Some raw"
  shows "MIDIPacketListAdd raw = Some raw"
proof -
  from assms have "length raw \<le> 3"
    by (auto simp: mm_out_send_raw_def Let_def split: if_splits)
  then show ?thesis by (simp add: MIDIPacketListAdd_def MIDIPacketList_capacity_def)
qed

lemma cm_send_calls:
  assumes "mm_out_send_raw m = Some raw" and "is_open d" and "\<not> is_input d"
  shows "cm_mm_out_send env (Some d) (Some m) =
    (if noErr env then MM_SUCCESS else MM_ERROR, Some d,
     [if is_virtual d then MIDIReceived (cm_virt_ep d) raw
      else MIDISend (cm_port d) (cm_endpoint d) raw])"
  using assms send_raw_fits [OF assms(1)] by (simp add: cm_mm_out_send_def)

lemma valid_sysex_shape:
  assumes "wire_message w" and "hd w = 0xF0"
  shows "\<exists>body. w = 0xF0 # body @ [0xF7] \<and> data_bytes body"
proof -
  from assms(1) obtain s ds where w: "w = s # ds" by (cases w) (auto simp: wire_message_def)
  with assms(2) have s: "s = 0xF0" by simp
  with assms(1) w have "ds \<noteq> []" "last ds = 0xF7" "data_bytes (butlast ds)"
    by (simp_all add: wire_message_def)
  then obtain body where "ds = body @ [0xF7]" "data_bytes body"
    by (metis append_butlast_last_id)
  with w s show ?thesis by simp
qed

lemma cm_send_sysex_calls:
  assumes "is_open d" and "\<not> is_input d" and "b \<noteq> []" and "length b \<le> MM_SYSEX_BUF_SIZE"
  shows "cm_mm_out_send_sysex env (Some d) (Some b) =
    (if is_virtual d
     then (if length b \<le> MIDIPacketList_capacity
           then (if noErr env then MM_SUCCESS else MM_ERROR,
                 Some (d\<lparr>cm_sysex_buf := b @ drop (length b) (cm_sysex_buf d)\<rparr>),
                 [MIDIReceived (cm_virt_ep d) b])
           else (MM_ERROR, Some (d\<lparr>cm_sysex_buf := b @ drop (length b) (cm_sysex_buf d)\<rparr>), []))
     else (if noErr env then MM_SUCCESS else MM_ERROR,
           Some (d\<lparr>cm_sysex_buf := b @ drop (length b) (cm_sysex_buf d),
                    cm_sysex_req_destination := cm_endpoint d,
                    cm_sysex_req_bytesToSend := length b\<rparr>),
           [MIDISendSysex (cm_endpoint d) b]))"
  using assms by (simp add: cm_mm_out_send_sysex_def MIDIPacketListAdd_def Let_def)

lemma nonsysex_roundtrip:
  assumes "msg_type m \<in> set message_kinds" and "msg_type m \<noteq> MM_SYSEX" and "valid_payload m"
  shows "\<exists>raw m'. mm_out_send_raw m = Some raw \<and> cm_parse ts raw = [m'] \<and> same_message m m'"
proof -
  from assms(3) have c: "channel m < 16" and p: "song_position m < 16384"
    by (simp_all add: valid_payload_def)
  from assms(1,2) consider
      (c3) "msg_type m \<in> {MM_NOTE_OFF, MM_NOTE_ON, MM_POLY_PRESSURE, MM_CONTROL_CHANGE, MM_PITCH_BEND}"
    | (c2) "msg_type m \<in> {MM_PROGRAM_CHANGE, MM_CHANNEL_PRESSURE}"
    | (sys) "msg_type m \<in> {MM_MTC_QUARTER_FRAME, MM_SONG_SELECT, MM_TUNE_REQUEST, MM_CLOCK,
         MM_START, MM_CONTINUE, MM_STOP, MM_ACTIVE_SENSE, MM_RESET}"
    | (spp) "msg_type m = MM_SONG_POSITION"
    by (auto simp: message_kinds_def)
  then show ?thesis
  proof cases
    case c3
    let ?k = "ucast (msg_type m) :: u8"
    let ?m' = "mm_message_zero\<lparr>timestamp := ts, msg_type := ucast ?k, channel := channel m,
                  data0 := data0 m, data1 := data1 m\<rparr>"
    from c3 have raw: "mm_out_send_raw m =
        Some [push_bit 4 ?k OR (channel m AND 0x0F), data0 m, data1 m]"
      by (auto simp: mm_out_send_raw_def)
    from c3 have k: "?k \<in> {8, 9, 0xA, 0xB, 0xE}" and t: "ucast ?k = msg_type m"
      by (auto simp: mm_type_defs)
    have "same_message m ?m'" using c3 t by (auto simp: same_message_def)
    with raw cm_parse_chan3 [OF c k, of ts "data0 m" "data1 m"] show ?thesis by blast
  next
    case c2
    let ?k = "ucast (msg_type m) :: u8"
    let ?m' = "mm_message_zero\<lparr>timestamp := ts, msg_type := ucast ?k, channel := channel m,
                  data0 := data0 m\<rparr>"
    from c2 have raw: "mm_out_send_raw m = Some [push_bit 4 ?k OR (channel m AND 0x0F), data0 m]"
      by (auto simp: mm_out_send_raw_def mm_type_defs)
    from c2 have k: "?k \<in> {0xC, 0xD}" and t: "ucast ?k = msg_type m"
      by (auto simp: mm_type_defs)
    have "same_message m ?m'" using c2 t by (auto simp: same_message_def mm_type_defs)
    with raw cm_parse_chan2 [OF c k, of ts "data0 m"] show ?thesis by blast
  next
    case sys
    then show ?thesis
      by (auto simp: mm_out_send_raw_def same_message_def mm_type_defs cm_step_def)
  next
    case spp
    then show ?thesis using spp_join [OF p]
      by (auto simp: mm_out_send_raw_def same_message_def mm_type_defs cm_step_def)
  qed
qed


text \<open>
  C1. For every message kind and every valid payload (channel 0-15, data bytes at most
  \<open>0x7F\<close>, song position below 16384; for SysEx a complete SysEx of 7-bit bytes that
  fits the SysEx buffer), the bytes the serializer produces are turned by the read
  procedure into exactly one message, equal to the original in kind, channel and payload.
  The serializer is the layout of \<open>mm_out_send\<close> for every kind it has one for, and for
  SysEx the separate path \<open>mm_out_send_sysex\<close>, which is given the slice of the message
  (the \<open>switch\<close> of \<open>mm_out_send\<close> has no case for SysEx; the through example of the
  repository sends a SysEx message with \<open>mm_out_send_sysex\<close> and every other message
  with \<open>mm_out_send\<close>). On an open output device these bytes are what the OS is handed:
  through \<open>MIDISend\<close> or, for SysEx, \<open>MIDISendSysex\<close>, and on a virtual source through
  \<open>MIDIReceived\<close> (where a SysEx of more than 256 bytes does not fit the packet list and
  nothing is sent). For \<open>SongPosition\<close> the payload is the 14-bit position, so every
  position from 0 to 16383 comes back unchanged.
\<close>

theorem serialize_parse_roundtrip:
  assumes "msg_type m \<in> set message_kinds" and "valid_payload m"
  shows "\<exists>raw m'.
           (if msg_type m = MM_SYSEX then raw = sysex m else mm_out_send_raw m = Some raw)
         \<and> (is_open d \<and> \<not> is_input d \<longrightarrow>
              (if msg_type m = MM_SYSEX
               then snd (snd (cm_mm_out_send_sysex env (Some d) (Some (sysex m)))) =
                      (if is_virtual d
                       then (if length raw \<le> MIDIPacketList_capacity
                             then [MIDIReceived (cm_virt_ep d) raw] else [])
                       else [MIDISendSysex (cm_endpoint d) raw])
               else snd (snd (cm_mm_out_send env (Some d) (Some m))) =
                      [if is_virtual d then MIDIReceived (cm_virt_ep d) raw
                       else MIDISend (cm_port d) (cm_endpoint d) raw]))
         \<and> cm_parse ts raw = [m'] \<and> same_message m m'"
proof (cases "msg_type m = MM_SYSEX")
  case True
  with assms(2) have v: "wire_message (sysex m)" "hd (sysex m) = 0xF0"
    and l: "length (sysex m) \<le> MM_SYSEX_BUF_SIZE"
    by (simp_all add: valid_payload_def)
  from valid_sysex_shape [OF v] obtain body where
    b: "sysex m = 0xF0 # body @ [0xF7]" and d: "data_bytes body" by blast
  from b have ne: "sysex m \<noteq> []" by simp
  let ?m' = "mm_message_zero\<lparr>timestamp := ts, msg_type := MM_SYSEX, sysex := sysex m\<rparr>"
  have p: "cm_parse ts (sysex m) = [?m']"
    using sysex_roundtrip [OF d, of ts] by (simp only: b)
  have s: "same_message m ?m'" using True by (simp add: same_message_def mm_type_defs)
  have c: "is_open d \<and> \<not> is_input d \<longrightarrow>
      snd (snd (cm_mm_out_send_sysex env (Some d) (Some (sysex m)))) =
      (if is_virtual d
       then (if length (sysex m) \<le> MIDIPacketList_capacity
             then [MIDIReceived (cm_virt_ep d) (sysex m)] else [])
       else [MIDISendSysex (cm_endpoint d) (sysex m)])"
    by (simp add: cm_send_sysex_calls [OF _ _ ne l])
  from True p s c show ?thesis by (simp del: cm_parse.simps)
next
  case False
  from nonsysex_roundtrip [OF assms(1) False assms(2), of ts] obtain raw m' where
    r: "mm_out_send_raw m = Some raw" and p: "cm_parse ts raw = [m']" and s: "same_message m m'"
    by blast
  have c: "is_open d \<and> \<not> is_input d \<longrightarrow>
      snd (snd (cm_mm_out_send env (Some d) (Some m))) =
        [if is_virtual d then MIDIReceived (cm_virt_ep d) raw
         else MIDISend (cm_port d) (cm_endpoint d) raw]"
    by (simp add: cm_send_calls [OF r])
  from False r p s c show ?thesis by (auto simp del: cm_parse.simps)
qed

theorem serialize_parse_roundtrip_witness:
  "mm_out_send_raw (mm_message_zero\<lparr>msg_type := MM_SONG_POSITION, song_position := 16383\<rparr>)
     = Some [0xF2, 0x7F, 0x7F]
   \<and> snd (snd (cm_mm_out_send \<lparr>sources = [7], destinations = [8], created = Some 9, noErr = True\<rparr>
        (Some (mm_device_cm_zero\<lparr>is_open := True, cm_port := 9, cm_endpoint := 8\<rparr>))
        (Some (mm_message_zero\<lparr>msg_type := MM_SONG_POSITION, song_position := 16383\<rparr>))))
     = [MIDISend 9 8 [0xF2, 0x7F, 0x7F]]
   \<and> (\<exists>m'. cm_parse 0 [0xF2, 0x7F, 0x7F] = [m'] \<and> msg_type m' = MM_SONG_POSITION
          \<and> song_position m' = 16383)
   \<and> snd (snd (cm_mm_out_send_sysex
        \<lparr>sources = [7], destinations = [8], created = Some 9, noErr = True\<rparr>
        (Some (mm_device_cm_zero\<lparr>is_open := True, cm_port := 9, cm_endpoint := 8\<rparr>))
        (Some [0xF0, 0x7E, 0x7F, 0x06, 0x01, 0xF7])))
     = [MIDISendSysex 8 [0xF0, 0x7E, 0x7F, 0x06, 0x01, 0xF7]]
   \<and> (\<exists>m'. cm_parse 0 [0xF0, 0x7E, 0x7F, 0x06, 0x01, 0xF7] = [m'] \<and> msg_type m' = MM_SYSEX
          \<and> sysex m' = [0xF0, 0x7E, 0x7F, 0x06, 0x01, 0xF7])"
proof -
  let ?env = "\<lparr>sources = [7], destinations = [8], created = Some 9, noErr = True\<rparr>"
  let ?d = "mm_device_cm_zero\<lparr>is_open := True, cm_port := 9, cm_endpoint := 8\<rparr>"
  let ?m = "mm_message_zero\<lparr>msg_type := MM_SONG_POSITION, song_position := 16383\<rparr>"
  let ?x = "mm_message_zero\<lparr>msg_type := MM_SYSEX, sysex := [0xF0, 0x7E, 0x7F, 0x06, 0x01, 0xF7]\<rparr>"
  have d: "is_open ?d \<and> \<not> is_input ?d" "\<not> is_virtual ?d" "cm_port ?d = 9" "cm_endpoint ?d = 8"
    by (simp_all add: mm_device_cm_zero_def)
  have 1: "msg_type ?m \<in> set message_kinds" by (simp add: message_kinds_def)
  have 2: "valid_payload ?m" by (simp add: valid_payload_def mm_message_zero_def mm_type_defs)
  have 3: "msg_type ?m \<noteq> MM_SYSEX" by (simp add: mm_type_defs)
  have 4: "mm_out_send_raw ?m = Some [0xF2, 0x7F, 0x7F]"
    by (simp add: mm_out_send_raw_def mm_type_defs)
  from serialize_parse_roundtrip [OF 1 2, of ?d ?env 0] 3 4 d
  obtain m' where a: "snd (snd (cm_mm_out_send ?env (Some ?d) (Some ?m))) = [MIDISend 9 8 [0xF2, 0x7F, 0x7F]]"
    and b: "cm_parse 0 [0xF2, 0x7F, 0x7F] = [m']" and c: "same_message ?m m'"
    by (auto simp del: cm_parse.simps)
  from c have c': "msg_type m' = MM_SONG_POSITION \<and> song_position m' = 16383"
    by (simp add: same_message_def mm_type_defs)
  have 5: "msg_type ?x \<in> set message_kinds" by (simp add: message_kinds_def)
  have 6: "valid_payload ?x"
    by (simp add: valid_payload_def mm_message_zero_def wire_message_def data_bytes_def
        MM_SYSEX_BUF_SIZE_def)
  have 7: "msg_type ?x = MM_SYSEX" by simp
  from serialize_parse_roundtrip [OF 5 6, of ?d ?env 0] 7 d
  obtain x' where e: "snd (snd (cm_mm_out_send_sysex ?env (Some ?d)
        (Some [0xF0, 0x7E, 0x7F, 0x06, 0x01, 0xF7]))) =
        [MIDISendSysex 8 [0xF0, 0x7E, 0x7F, 0x06, 0x01, 0xF7]]"
    and f: "cm_parse 0 [0xF0, 0x7E, 0x7F, 0x06, 0x01, 0xF7] = [x']" and g: "same_message ?x x'"
    by (auto simp del: cm_parse.simps)
  from g have g': "msg_type x' = MM_SYSEX \<and> sysex x' = [0xF0, 0x7E, 0x7F, 0x06, 0x01, 0xF7]"
    by (simp add: same_message_def mm_type_defs)
  from 4 a b c' e f g' show ?thesis by blast
qed













section \<open>ALSA port enumeration\<close>

lemma alsa_enum_ports_length:
  "length lst \<le> MM_MAX_PORTS \<Longrightarrow> length (alsa_enum_ports r a c ps lst) \<le> MM_MAX_PORTS"
  by (induction ps arbitrary: lst) (auto simp: Let_def)

lemma alsa_enum_clients_length:
  "length lst \<le> MM_MAX_PORTS \<Longrightarrow> length (alsa_enum_clients own r a cs lst) \<le> MM_MAX_PORTS"
  by (induction cs arbitrary: lst) (auto simp: alsa_enum_ports_length)

lemma alsa_enum_ports_client:
  assumes "client_id c \<noteq> own"
  shows "\<forall>e \<in> set lst. pi_client e \<noteq> own \<Longrightarrow>
    \<forall>e \<in> set (alsa_enum_ports r a c ps lst). pi_client e \<noteq> own"
proof (induction ps arbitrary: lst)
  case Nil
  then show ?case by simp
next
  case (Cons p ps)
  let ?e = "\<lparr>pi_client = client_id c, pi_port = port_id p, pi_name = alsa_port_label c p\<rparr>"
  from Cons.prems assms have "\<forall>e \<in> set (lst @ [?e]). pi_client e \<noteq> own" by simp
  from Cons.IH [OF this] Cons.IH [OF Cons.prems] show ?case by (simp add: Let_def)
qed

lemma alsa_enum_clients_client:
  "\<forall>e \<in> set lst. pi_client e \<noteq> own \<Longrightarrow>
   \<forall>e \<in> set (alsa_enum_clients own r a cs lst). pi_client e \<noteq> own"
proof (induction cs arbitrary: lst)
  case Nil
  then show ?case by simp
next
  case (Cons c cs)
  show ?case
  proof (cases "client_id c = own")
    case True
    with Cons show ?thesis by simp
  next
    case False
    from alsa_enum_ports_client [OF False Cons.prems]
    have "\<forall>e \<in> set (alsa_enum_ports r a c (client_ports c) lst). pi_client e \<noteq> own" .
    from Cons.IH [OF this] False show ?thesis by simp
  qed
qed

lemma count_bound: "n \<le> MM_MAX_PORTS \<Longrightarrow> unat (word_of_nat n :: u32) \<le> MM_MAX_PORTS"
  by (simp add: MM_MAX_PORTS_def unat_of_nat)

text \<open>
  C10. On the ALSA backend the enumerated list never holds more than \<open>MM_MAX_PORTS\<close>
  entries and never holds a port of the context's own sequencer client, whatever clients
  and ports the sequencer reports and whatever capability filter is used; so
  \<open>mm_in_count\<close> and \<open>mm_out_count\<close>, which return the length of that list, are at
  most \<open>MM_MAX_PORTS\<close> and count no port of the process itself.
\<close>

theorem alsa_enumeration_bounds:
  "length (mm__alsa_enum c seq cap_req cap_any) \<le> MM_MAX_PORTS
   \<and> (\<forall>e \<in> set (mm__alsa_enum c seq cap_req cap_any). pi_client e \<noteq> al_client_id c)
   \<and> unat (alsa_mm_in_count cp seq) \<le> MM_MAX_PORTS
   \<and> unat (alsa_mm_out_count cp seq) \<le> MM_MAX_PORTS
   \<and> (\<forall>cx. cp = Some cx \<and> initialized cx \<longrightarrow>
        unat (alsa_mm_in_count cp seq) = length (alsa_enum_inputs cx seq)
        \<and> unat (alsa_mm_out_count cp seq) = length (alsa_enum_outputs cx seq))"
proof -
  have len: "\<And>c r a. length (mm__alsa_enum c seq r a) \<le> MM_MAX_PORTS"
    by (simp add: mm__alsa_enum_def alsa_enum_clients_length)
  have own: "\<forall>e \<in> set (mm__alsa_enum c seq cap_req cap_any). pi_client e \<noteq> al_client_id c"
    unfolding mm__alsa_enum_def by (rule alsa_enum_clients_client) simp
  have inb: "unat (alsa_mm_in_count cp seq) \<le> MM_MAX_PORTS"
    by (auto simp: alsa_mm_in_count_def alsa_enum_inputs_def count_bound len split: option.splits)
  have outb: "unat (alsa_mm_out_count cp seq) \<le> MM_MAX_PORTS"
    by (auto simp: alsa_mm_out_count_def alsa_enum_outputs_def count_bound len split: option.splits)
  have ex: "\<And>n. n \<le> MM_MAX_PORTS \<Longrightarrow> unat (word_of_nat n :: u32) = n"
    by (simp add: MM_MAX_PORTS_def unat_of_nat)
  have eq: "\<forall>cx. cp = Some cx \<and> initialized cx \<longrightarrow>
        unat (alsa_mm_in_count cp seq) = length (alsa_enum_inputs cx seq)
        \<and> unat (alsa_mm_out_count cp seq) = length (alsa_enum_outputs cx seq)"
    by (auto simp: alsa_mm_in_count_def alsa_mm_out_count_def alsa_enum_inputs_def
        alsa_enum_outputs_def ex len)
  from len own inb outb eq show ?thesis by blast
qed


theorem alsa_enumeration_bounds_witness:
  "mm__alsa_enum \<lparr>initialized = True, name = ''me'', al_seq = 1, al_client_id = 128\<rparr>
     [\<lparr>client_id = 14, client_name = ''Midi Through'',
        client_ports = [\<lparr>port_id = 0, port_name = ''Port-0'', capability = 99\<rparr>]\<rparr>,
      \<lparr>client_id = 128, client_name = ''me'',
        client_ports = [\<lparr>port_id = 0, port_name = ''me-out'', capability = 33\<rparr>]\<rparr>]
     (SND_SEQ_PORT_CAP_READ OR SND_SEQ_PORT_CAP_SUBS_READ) SND_SEQ_PORT_CAP_READ
   = [\<lparr>pi_client = 14, pi_port = 0, pi_name = ''Midi Through:Port-0 (14:0)''\<rparr>]
   \<and> unat (alsa_mm_in_count
        (Some \<lparr>initialized = True, name = ''me'', al_seq = 1, al_client_id = 128\<rparr>)
        [\<lparr>client_id = 14, client_name = ''Midi Through'',
           client_ports = [\<lparr>port_id = 0, port_name = ''Port-0'', capability = 99\<rparr>]\<rparr>,
         \<lparr>client_id = 128, client_name = ''me'',
           client_ports = [\<lparr>port_id = 0, port_name = ''me-out'', capability = 33\<rparr>]\<rparr>]) = 1"
proof -
  let ?c = "\<lparr>initialized = True, name = ''me'', al_seq = 1, al_client_id = 128\<rparr>"
  let ?seq = "[\<lparr>client_id = 14, client_name = ''Midi Through'',
        client_ports = [\<lparr>port_id = 0, port_name = ''Port-0'', capability = 99\<rparr>]\<rparr>,
      \<lparr>client_id = 128, client_name = ''me'',
        client_ports = [\<lparr>port_id = 0, port_name = ''me-out'', capability = 33\<rparr>]\<rparr>]"
  have e: "mm__alsa_enum ?c ?seq (SND_SEQ_PORT_CAP_READ OR SND_SEQ_PORT_CAP_SUBS_READ)
      SND_SEQ_PORT_CAP_READ
    = [\<lparr>pi_client = 14, pi_port = 0, pi_name = ''Midi Through:Port-0 (14:0)''\<rparr>]"
    by (simp add: mm__alsa_enum_def SND_SEQ_PORT_CAP_READ_def SND_SEQ_PORT_CAP_SUBS_READ_def
        MM_MAX_PORTS_def alsa_port_label_def dec_int_def char_of_eq_iff)
  from alsa_enumeration_bounds [of ?c ?seq "SND_SEQ_PORT_CAP_READ OR SND_SEQ_PORT_CAP_SUBS_READ"
      SND_SEQ_PORT_CAP_READ "Some ?c"]
  have "unat (alsa_mm_in_count (Some ?c) ?seq) = length (alsa_enum_inputs ?c ?seq)" by simp
  with e show ?thesis by (simp add: alsa_enum_inputs_def)
qed

section \<open>NoteOn with velocity 0 on the three backends\<close>












section \<open>Device operations: opening, starting and direction\<close>



















section \<open>Sending SysEx\<close>

lemma alsa_send_sysex_cases:
  assumes "is_open d" and "\<not> is_input d"
  shows "map_option fst (alsa_mm_out_send_sysex (Some d) data) = Some MM_INVALID_ARG \<longleftrightarrow>
           (case data of None \<Rightarrow> True | Some x \<Rightarrow> x = [] \<or> MM_SYSEX_BUF_SIZE < length x)"
    and "(case data of None \<Rightarrow> True | Some x \<Rightarrow> x = [] \<or> MM_SYSEX_BUF_SIZE < length x) \<Longrightarrow>
           alsa_mm_out_send_sysex (Some d) data = Some (MM_INVALID_ARG, Some d, [])"
    and "b \<noteq> [] \<and> length b \<le> MM_SYSEX_BUF_SIZE \<and> ctx d = Some cx \<Longrightarrow>
           alsa_mm_out_send_sysex (Some d) (Some b) =
             Some (MM_SUCCESS, Some (d\<lparr>al_sysex_buf := b @ drop (length b) (al_sysex_buf d)\<rparr>),
                   [snd_seq_event_output (al_seq cx) (al_port_id d)
                      (snd_seq_event_zero\<lparr>ev_type := SND_SEQ_EVENT_SYSEX, ext := b\<rparr>),
                    snd_seq_drain_output (al_seq cx)])"
  using assms
  by (auto simp: alsa_mm_out_send_sysex_def mm__alsa_send_ev_def Let_def mm_result_defs
      split: option.splits)

lemma cm_send_sysex_cases:
  assumes "is_open cd" and "\<not> is_input cd"
  shows "fst (cm_mm_out_send_sysex cenv (Some cd) data) = MM_INVALID_ARG \<longleftrightarrow>
           (case data of None \<Rightarrow> True | Some x \<Rightarrow> x = [] \<or> MM_SYSEX_BUF_SIZE < length x)"
    and "(case data of None \<Rightarrow> True | Some x \<Rightarrow> x = [] \<or> MM_SYSEX_BUF_SIZE < length x) \<Longrightarrow>
           cm_mm_out_send_sysex cenv (Some cd) data = (MM_INVALID_ARG, Some cd, [])"
    and "b \<noteq> [] \<and> length b \<le> MM_SYSEX_BUF_SIZE \<Longrightarrow>
           cm_mm_out_send_sysex cenv (Some cd) (Some b) =
             (if is_virtual cd
              then (if length b \<le> MIDIPacketList_capacity
                    then (if noErr cenv then MM_SUCCESS else MM_ERROR,
                          Some (cd\<lparr>cm_sysex_buf := b @ drop (length b) (cm_sysex_buf cd)\<rparr>),
                          [MIDIReceived (cm_virt_ep cd) b])
                    else (MM_ERROR,
                          Some (cd\<lparr>cm_sysex_buf := b @ drop (length b) (cm_sysex_buf cd)\<rparr>),
                          []))
              else (if noErr cenv then MM_SUCCESS else MM_ERROR,
                    Some (cd\<lparr>cm_sysex_buf := b @ drop (length b) (cm_sysex_buf cd),
                              cm_sysex_req_destination := cm_endpoint cd,
                              cm_sysex_req_bytesToSend := length b\<rparr>),
                    [MIDISendSysex (cm_endpoint cd) b]))"
  using assms
  by (auto simp: cm_mm_out_send_sysex_def MIDIPacketListAdd_def Let_def mm_result_defs
      split: option.splits)

lemma wm_send_sysex_cases:
  assumes "is_open wd" and "\<not> is_input wd"
  shows "fst (wm_mm_out_send_sysex wenv (Some wd) data) = MM_INVALID_ARG \<longleftrightarrow>
           (case data of None \<Rightarrow> True | Some x \<Rightarrow> x = [] \<or> MM_SYSEX_BUF_SIZE < length x)"
    and "(case data of None \<Rightarrow> True | Some x \<Rightarrow> x = [] \<or> MM_SYSEX_BUF_SIZE < length x) \<Longrightarrow>
           wm_mm_out_send_sysex wenv (Some wd) data = (MM_INVALID_ARG, Some wd, [])"
    and "b \<noteq> [] \<and> length b \<le> MM_SYSEX_BUF_SIZE \<Longrightarrow>
           wm_mm_out_send_sysex wenv (Some wd) (Some b) =
             (if long_msg_ok wenv then MM_SUCCESS else MM_ERROR,
              Some (wd\<lparr>wm_sysex_buf := b @ drop (length b) (wm_sysex_buf wd),
                        wm_sysex_hdr_dwBufferLength := length b,
                        wm_sysex_hdr_dwBytesRecorded := length b\<rparr>),
              [midiOutPrepareHeader (wm_out wd), midiOutLongMsg (wm_out wd) b]
              @ concat (replicate (still_playing wenv) [midiOutUnprepareHeader (wm_out wd), Sleep])
              @ [midiOutUnprepareHeader (wm_out wd)])"
  using assms
  by (auto simp: wm_mm_out_send_sysex_def Let_def mm_result_defs split: option.splits)


text \<open>
  C8, as the code behaves. On an open output device \<open>mm_out_send_sysex\<close> returns
  \<open>MM_INVALID_ARG\<close> exactly when the slice is null, empty, or longer than
  \<open>MM_SYSEX_BUF_SIZE\<close>, so a zero-length slice is refused; the device is then unchanged
  and no call reaches the OS. Every slice of 1 to \<open>MM_SYSEX_BUF_SIZE\<close> bytes is copied
  to the device's buffer and handed to the OS as it is: on ALSA (the device's context set)
  as one SysEx event, with \<open>MM_SUCCESS\<close>; on WinMM as one long message and on a CoreMIDI
  destination through \<open>MIDISendSysex\<close>, with \<open>MM_SUCCESS\<close> or \<open>MM_ERROR\<close> as the
  call answers; on a virtual CoreMIDI source as one packet through \<open>MIDIReceived\<close>, with
  \<open>MM_SUCCESS\<close> or \<open>MM_ERROR\<close> as the call answers, when it fits the packet list on
  the stack (256 bytes), and otherwise \<open>MM_ERROR\<close> is returned and nothing is sent.
\<close>

theorem send_sysex_invalid_arg:
  "(is_open d \<and> \<not> is_input d \<longrightarrow>
      (map_option fst (alsa_mm_out_send_sysex (Some d) data) = Some MM_INVALID_ARG \<longleftrightarrow>
         (case data of None \<Rightarrow> True | Some x \<Rightarrow> x = [] \<or> MM_SYSEX_BUF_SIZE < length x))
      \<and> ((case data of None \<Rightarrow> True | Some x \<Rightarrow> x = [] \<or> MM_SYSEX_BUF_SIZE < length x) \<longrightarrow>
            alsa_mm_out_send_sysex (Some d) data = Some (MM_INVALID_ARG, Some d, []))
      \<and> (b \<noteq> [] \<and> length b \<le> MM_SYSEX_BUF_SIZE \<and> ctx d = Some cx \<longrightarrow>
            alsa_mm_out_send_sysex (Some d) (Some b) =
              Some (MM_SUCCESS, Some (d\<lparr>al_sysex_buf := b @ drop (length b) (al_sysex_buf d)\<rparr>),
                    [snd_seq_event_output (al_seq cx) (al_port_id d)
                       (snd_seq_event_zero\<lparr>ev_type := SND_SEQ_EVENT_SYSEX, ext := b\<rparr>),
                     snd_seq_drain_output (al_seq cx)])))
   \<and> (is_open cd \<and> \<not> is_input cd \<longrightarrow>
      (fst (cm_mm_out_send_sysex cenv (Some cd) data) = MM_INVALID_ARG \<longleftrightarrow>
         (case data of None \<Rightarrow> True | Some x \<Rightarrow> x = [] \<or> MM_SYSEX_BUF_SIZE < length x))
      \<and> ((case data of None \<Rightarrow> True | Some x \<Rightarrow> x = [] \<or> MM_SYSEX_BUF_SIZE < length x) \<longrightarrow>
            cm_mm_out_send_sysex cenv (Some cd) data = (MM_INVALID_ARG, Some cd, []))
      \<and> (b \<noteq> [] \<and> length b \<le> MM_SYSEX_BUF_SIZE \<longrightarrow>
            cm_mm_out_send_sysex cenv (Some cd) (Some b) =
              (if is_virtual cd
               then (if length b \<le> MIDIPacketList_capacity
                     then (if noErr cenv then MM_SUCCESS else MM_ERROR,
                           Some (cd\<lparr>cm_sysex_buf := b @ drop (length b) (cm_sysex_buf cd)\<rparr>),
                           [MIDIReceived (cm_virt_ep cd) b])
                     else (MM_ERROR,
                           Some (cd\<lparr>cm_sysex_buf := b @ drop (length b) (cm_sysex_buf cd)\<rparr>),
                           []))
               else (if noErr cenv then MM_SUCCESS else MM_ERROR,
                     Some (cd\<lparr>cm_sysex_buf := b @ drop (length b) (cm_sysex_buf cd),
                               cm_sysex_req_destination := cm_endpoint cd,
                               cm_sysex_req_bytesToSend := length b\<rparr>),
                     [MIDISendSysex (cm_endpoint cd) b]))))
   \<and> (is_open wd \<and> \<not> is_input wd \<longrightarrow>
      (fst (wm_mm_out_send_sysex wenv (Some wd) data) = MM_INVALID_ARG \<longleftrightarrow>
         (case data of None \<Rightarrow> True | Some x \<Rightarrow> x = [] \<or> MM_SYSEX_BUF_SIZE < length x))
      \<and> ((case data of None \<Rightarrow> True | Some x \<Rightarrow> x = [] \<or> MM_SYSEX_BUF_SIZE < length x) \<longrightarrow>
            wm_mm_out_send_sysex wenv (Some wd) data = (MM_INVALID_ARG, Some wd, []))
      \<and> (b \<noteq> [] \<and> length b \<le> MM_SYSEX_BUF_SIZE \<longrightarrow>
            wm_mm_out_send_sysex wenv (Some wd) (Some b) =
              (if long_msg_ok wenv then MM_SUCCESS else MM_ERROR,
               Some (wd\<lparr>wm_sysex_buf := b @ drop (length b) (wm_sysex_buf wd),
                         wm_sysex_hdr_dwBufferLength := length b,
                         wm_sysex_hdr_dwBytesRecorded := length b\<rparr>),
               [midiOutPrepareHeader (wm_out wd), midiOutLongMsg (wm_out wd) b]
               @ concat (replicate (still_playing wenv) [midiOutUnprepareHeader (wm_out wd), Sleep])
               @ [midiOutUnprepareHeader (wm_out wd)])))"
proof (intro conjI impI)
  assume a: "is_open d \<and> \<not> is_input d"
  then have o: "is_open d" and i: "\<not> is_input d" by simp_all
  show "map_option fst (alsa_mm_out_send_sysex (Some d) data) = Some MM_INVALID_ARG \<longleftrightarrow>
      (case data of None \<Rightarrow> True | Some x \<Rightarrow> x = [] \<or> MM_SYSEX_BUF_SIZE < length x)"
    by (rule alsa_send_sysex_cases(1) [OF o i])
  show "alsa_mm_out_send_sysex (Some d) data = Some (MM_INVALID_ARG, Some d, [])"
    if "case data of None \<Rightarrow> True | Some x \<Rightarrow> x = [] \<or> MM_SYSEX_BUF_SIZE < length x"
    using that by (rule alsa_send_sysex_cases(2) [OF o i])
  show "alsa_mm_out_send_sysex (Some d) (Some b) =
      Some (MM_SUCCESS, Some (d\<lparr>al_sysex_buf := b @ drop (length b) (al_sysex_buf d)\<rparr>),
            [snd_seq_event_output (al_seq cx) (al_port_id d)
               (snd_seq_event_zero\<lparr>ev_type := SND_SEQ_EVENT_SYSEX, ext := b\<rparr>),
             snd_seq_drain_output (al_seq cx)])"
    if "b \<noteq> [] \<and> length b \<le> MM_SYSEX_BUF_SIZE \<and> ctx d = Some cx"
    using that by (rule alsa_send_sysex_cases(3) [OF o i])
next
  assume a: "is_open cd \<and> \<not> is_input cd"
  then have o: "is_open cd" and i: "\<not> is_input cd" by simp_all
  show "fst (cm_mm_out_send_sysex cenv (Some cd) data) = MM_INVALID_ARG \<longleftrightarrow>
      (case data of None \<Rightarrow> True | Some x \<Rightarrow> x = [] \<or> MM_SYSEX_BUF_SIZE < length x)"
    by (rule cm_send_sysex_cases(1) [OF o i])
  show "cm_mm_out_send_sysex cenv (Some cd) data = (MM_INVALID_ARG, Some cd, [])"
    if "case data of None \<Rightarrow> True | Some x \<Rightarrow> x = [] \<or> MM_SYSEX_BUF_SIZE < length x"
    using that by (rule cm_send_sysex_cases(2) [OF o i])
  show "cm_mm_out_send_sysex cenv (Some cd) (Some b) =
      (if is_virtual cd
       then (if length b \<le> MIDIPacketList_capacity
             then (if noErr cenv then MM_SUCCESS else MM_ERROR,
                   Some (cd\<lparr>cm_sysex_buf := b @ drop (length b) (cm_sysex_buf cd)\<rparr>),
                   [MIDIReceived (cm_virt_ep cd) b])
             else (MM_ERROR,
                   Some (cd\<lparr>cm_sysex_buf := b @ drop (length b) (cm_sysex_buf cd)\<rparr>),
                   []))
       else (if noErr cenv then MM_SUCCESS else MM_ERROR,
             Some (cd\<lparr>cm_sysex_buf := b @ drop (length b) (cm_sysex_buf cd),
                       cm_sysex_req_destination := cm_endpoint cd,
                       cm_sysex_req_bytesToSend := length b\<rparr>),
             [MIDISendSysex (cm_endpoint cd) b]))"
    if "b \<noteq> [] \<and> length b \<le> MM_SYSEX_BUF_SIZE"
    using that by (rule cm_send_sysex_cases(3) [OF o i])
next
  assume a: "is_open wd \<and> \<not> is_input wd"
  then have o: "is_open wd" and i: "\<not> is_input wd" by simp_all
  show "fst (wm_mm_out_send_sysex wenv (Some wd) data) = MM_INVALID_ARG \<longleftrightarrow>
      (case data of None \<Rightarrow> True | Some x \<Rightarrow> x = [] \<or> MM_SYSEX_BUF_SIZE < length x)"
    by (rule wm_send_sysex_cases(1) [OF o i])
  show "wm_mm_out_send_sysex wenv (Some wd) data = (MM_INVALID_ARG, Some wd, [])"
    if "case data of None \<Rightarrow> True | Some x \<Rightarrow> x = [] \<or> MM_SYSEX_BUF_SIZE < length x"
    using that by (rule wm_send_sysex_cases(2) [OF o i])
  show "wm_mm_out_send_sysex wenv (Some wd) (Some b) =
      (if long_msg_ok wenv then MM_SUCCESS else MM_ERROR,
       Some (wd\<lparr>wm_sysex_buf := b @ drop (length b) (wm_sysex_buf wd),
                 wm_sysex_hdr_dwBufferLength := length b,
                 wm_sysex_hdr_dwBytesRecorded := length b\<rparr>),
       [midiOutPrepareHeader (wm_out wd), midiOutLongMsg (wm_out wd) b]
       @ concat (replicate (still_playing wenv) [midiOutUnprepareHeader (wm_out wd), Sleep])
       @ [midiOutUnprepareHeader (wm_out wd)])"
    if "b \<noteq> [] \<and> length b \<le> MM_SYSEX_BUF_SIZE"
    using that by (rule wm_send_sysex_cases(3) [OF o i])
qed


theorem send_sysex_invalid_arg_witness:
  "alsa_mm_out_send_sysex
     (Some (mm_device_alsa_zero
        \<lparr>ctx := Some \<lparr>initialized = True, name = ''me'', al_seq = 1, al_client_id = 128\<rparr>,
         is_open := True, al_port_id := 2\<rparr>)) None
   = Some (MM_INVALID_ARG,
       Some (mm_device_alsa_zero
        \<lparr>ctx := Some \<lparr>initialized = True, name = ''me'', al_seq = 1, al_client_id = 128\<rparr>,
         is_open := True, al_port_id := 2\<rparr>), [])
   \<and> map_option fst (alsa_mm_out_send_sysex
     (Some (mm_device_alsa_zero
        \<lparr>ctx := Some \<lparr>initialized = True, name = ''me'', al_seq = 1, al_client_id = 128\<rparr>,
         is_open := True, al_port_id := 2\<rparr>)) (Some [0xF0, 0x7E, 0xF7]))
   = Some MM_SUCCESS
   \<and> map_option (snd \<circ> snd) (alsa_mm_out_send_sysex
     (Some (mm_device_alsa_zero
        \<lparr>ctx := Some \<lparr>initialized = True, name = ''me'', al_seq = 1, al_client_id = 128\<rparr>,
         is_open := True, al_port_id := 2\<rparr>)) (Some [0xF0, 0x7E, 0xF7]))
   = Some [snd_seq_event_output 1 2
             (snd_seq_event_zero\<lparr>ev_type := SND_SEQ_EVENT_SYSEX, ext := [0xF0, 0x7E, 0xF7]\<rparr>),
           snd_seq_drain_output 1]
   \<and> cm_mm_out_send_sysex \<lparr>sources = [7], destinations = [8], created = Some 9, noErr = True\<rparr>
     (Some (mm_device_cm_zero\<lparr>is_open := True, cm_port := 9, cm_endpoint := 8\<rparr>)) None
   = (MM_INVALID_ARG, Some (mm_device_cm_zero\<lparr>is_open := True, cm_port := 9, cm_endpoint := 8\<rparr>), [])
   \<and> fst (cm_mm_out_send_sysex \<lparr>sources = [7], destinations = [8], created = Some 9, noErr = True\<rparr>
     (Some (mm_device_cm_zero\<lparr>is_open := True, cm_port := 9, cm_endpoint := 8\<rparr>)) (Some [0xF0, 0x7E, 0xF7]))
   = MM_SUCCESS
   \<and> snd (snd (cm_mm_out_send_sysex \<lparr>sources = [7], destinations = [8], created = Some 9, noErr = True\<rparr>
     (Some (mm_device_cm_zero\<lparr>is_open := True, cm_port := 9, cm_endpoint := 8\<rparr>)) (Some [0xF0, 0x7E, 0xF7])))
   = [MIDISendSysex 8 [0xF0, 0x7E, 0xF7]]
   \<and> wm_mm_out_send_sysex
     \<lparr>opened = Some 2, start_ok = True, short_msg_ok = True, long_msg_ok = True,
      still_playing = 1\<rparr>
     (Some (mm_device_wm_zero\<lparr>is_open := True, wm_out := 2\<rparr>)) None
   = (MM_INVALID_ARG, Some (mm_device_wm_zero\<lparr>is_open := True, wm_out := 2\<rparr>), [])
   \<and> fst (wm_mm_out_send_sysex
     \<lparr>opened = Some 2, start_ok = True, short_msg_ok = True, long_msg_ok = True,
      still_playing = 1\<rparr>
     (Some (mm_device_wm_zero\<lparr>is_open := True, wm_out := 2\<rparr>)) (Some [0xF0, 0x7E, 0xF7]))
   = MM_SUCCESS
   \<and> snd (snd (wm_mm_out_send_sysex
     \<lparr>opened = Some 2, start_ok = True, short_msg_ok = True, long_msg_ok = True,
      still_playing = 1\<rparr>
     (Some (mm_device_wm_zero\<lparr>is_open := True, wm_out := 2\<rparr>)) (Some [0xF0, 0x7E, 0xF7])))
   = [midiOutPrepareHeader 2, midiOutLongMsg 2 [0xF0, 0x7E, 0xF7], midiOutUnprepareHeader 2,
      Sleep, midiOutUnprepareHeader 2]"
proof -
  let ?cx = "\<lparr>initialized = True, name = ''me'', al_seq = 1, al_client_id = 128\<rparr>"
  let ?d = "mm_device_alsa_zero\<lparr>ctx := Some ?cx, is_open := True, al_port_id := 2\<rparr>"
  let ?cenv = "\<lparr>sources = [7], destinations = [8], created = Some 9, noErr = True\<rparr>"
  let ?cd = "mm_device_cm_zero\<lparr>is_open := True, cm_port := 9, cm_endpoint := 8\<rparr>"
  let ?wenv = "\<lparr>opened = Some 2, start_ok = True, short_msg_ok = True, long_msg_ok = True,
      still_playing = 1\<rparr>"
  let ?wd = "mm_device_wm_zero\<lparr>is_open := True, wm_out := 2\<rparr>"
  let ?b = "[0xF0, 0x7E, 0xF7] :: u8 list"
  have a: "is_open ?d \<and> \<not> is_input ?d" by (simp add: mm_device_alsa_zero_def)
  have c: "is_open ?cd \<and> \<not> is_input ?cd" by (simp add: mm_device_cm_zero_def)
  have w: "is_open ?wd \<and> \<not> is_input ?wd" by (simp add: mm_device_wm_zero_def)
  have n: "case None :: u8 list option of None \<Rightarrow> True
         | Some x \<Rightarrow> x = [] \<or> MM_SYSEX_BUF_SIZE < length x" by simp
  have b: "?b \<noteq> [] \<and> length ?b \<le> MM_SYSEX_BUF_SIZE \<and> ctx ?d = Some ?cx"
    "?b \<noteq> [] \<and> length ?b \<le> MM_SYSEX_BUF_SIZE"
    by (simp_all add: MM_SYSEX_BUF_SIZE_def)
  have e: "al_seq ?cx = 1" "al_port_id ?d = 2" "\<not> is_virtual ?cd" "noErr ?cenv"
    "cm_endpoint ?cd = 8" "long_msg_ok ?wenv" "still_playing ?wenv = 1" "wm_out ?wd = 2"
    by (simp_all add: mm_device_cm_zero_def mm_device_wm_zero_def)
  note t = send_sysex_invalid_arg [where d = ?d and cd = ?cd and wd = ?wd and data = None
      and b = ?b and cx = ?cx and cenv = ?cenv and wenv = ?wenv]
  from t [THEN conjunct1] a n b(1)
  have a1: "alsa_mm_out_send_sysex (Some ?d) None = Some (MM_INVALID_ARG, Some ?d, [])"
    and a2: "alsa_mm_out_send_sysex (Some ?d) (Some ?b) =
      Some (MM_SUCCESS, Some (?d\<lparr>al_sysex_buf := ?b @ drop (length ?b) (al_sysex_buf ?d)\<rparr>),
            [snd_seq_event_output (al_seq ?cx) (al_port_id ?d)
               (snd_seq_event_zero\<lparr>ev_type := SND_SEQ_EVENT_SYSEX, ext := ?b\<rparr>),
             snd_seq_drain_output (al_seq ?cx)])"
    by blast+
  from t [THEN conjunct2, THEN conjunct1] c n b(2)
  have c1: "cm_mm_out_send_sysex ?cenv (Some ?cd) None = (MM_INVALID_ARG, Some ?cd, [])"
    and c2: "cm_mm_out_send_sysex ?cenv (Some ?cd) (Some ?b) =
      (if is_virtual ?cd
       then (if length ?b \<le> MIDIPacketList_capacity
             then (if noErr ?cenv then MM_SUCCESS else MM_ERROR,
                   Some (?cd\<lparr>cm_sysex_buf := ?b @ drop (length ?b) (cm_sysex_buf ?cd)\<rparr>),
                   [MIDIReceived (cm_virt_ep ?cd) ?b])
             else (MM_ERROR,
                   Some (?cd\<lparr>cm_sysex_buf := ?b @ drop (length ?b) (cm_sysex_buf ?cd)\<rparr>),
                   []))
       else (if noErr ?cenv then MM_SUCCESS else MM_ERROR,
             Some (?cd\<lparr>cm_sysex_buf := ?b @ drop (length ?b) (cm_sysex_buf ?cd),
                       cm_sysex_req_destination := cm_endpoint ?cd,
                       cm_sysex_req_bytesToSend := length ?b\<rparr>),
             [MIDISendSysex (cm_endpoint ?cd) ?b]))"
    by blast+
  from t [THEN conjunct2, THEN conjunct2] w n b(2)
  have w1: "wm_mm_out_send_sysex ?wenv (Some ?wd) None = (MM_INVALID_ARG, Some ?wd, [])"
    and w2: "wm_mm_out_send_sysex ?wenv (Some ?wd) (Some ?b) =
      (if long_msg_ok ?wenv then MM_SUCCESS else MM_ERROR,
       Some (?wd\<lparr>wm_sysex_buf := ?b @ drop (length ?b) (wm_sysex_buf ?wd),
                 wm_sysex_hdr_dwBufferLength := length ?b,
                 wm_sysex_hdr_dwBytesRecorded := length ?b\<rparr>),
       [midiOutPrepareHeader (wm_out ?wd), midiOutLongMsg (wm_out ?wd) ?b]
       @ concat (replicate (still_playing ?wenv) [midiOutUnprepareHeader (wm_out ?wd), Sleep])
       @ [midiOutUnprepareHeader (wm_out ?wd)])"
    by blast+
  have a2': "map_option fst (alsa_mm_out_send_sysex (Some ?d) (Some ?b)) = Some MM_SUCCESS"
    "map_option (snd \<circ> snd) (alsa_mm_out_send_sysex (Some ?d) (Some ?b)) =
      Some [snd_seq_event_output 1 2
              (snd_seq_event_zero\<lparr>ev_type := SND_SEQ_EVENT_SYSEX, ext := ?b\<rparr>),
            snd_seq_drain_output 1]"
    by (simp_all only: a2 e option.map fst_conv snd_conv comp_apply)
  have c2': "fst (cm_mm_out_send_sysex ?cenv (Some ?cd) (Some ?b)) = MM_SUCCESS"
    "snd (snd (cm_mm_out_send_sysex ?cenv (Some ?cd) (Some ?b))) = [MIDISendSysex 8 ?b]"
    by (simp_all only: c2 e if_False if_True fst_conv snd_conv)
  have w2': "fst (wm_mm_out_send_sysex ?wenv (Some ?wd) (Some ?b)) = MM_SUCCESS"
    "snd (snd (wm_mm_out_send_sysex ?wenv (Some ?wd) (Some ?b))) =
      [midiOutPrepareHeader 2, midiOutLongMsg 2 ?b, midiOutUnprepareHeader 2, Sleep,
       midiOutUnprepareHeader 2]"
    by (simp_all only: w2 e if_True fst_conv snd_conv) simp
  show ?thesis
    by (intro conjI) (fact a1 a2' c1 c2' w1 w2')+
qed

theorem send_sysex_empty_counterexample:
  "alsa_mm_out_send_sysex
     (Some (mm_device_alsa_zero
        \<lparr>ctx := Some \<lparr>initialized = True, name = ''me'', al_seq = 1, al_client_id = 128\<rparr>,
         is_open := True, al_port_id := 2\<rparr>)) (Some [])
     = Some (MM_INVALID_ARG,
         Some (mm_device_alsa_zero
           \<lparr>ctx := Some \<lparr>initialized = True, name = ''me'', al_seq = 1, al_client_id = 128\<rparr>,
            is_open := True, al_port_id := 2\<rparr>), [])
   \<and> cm_mm_out_send_sysex
        \<lparr>sources = [7], destinations = [8], created = Some 9, noErr = True\<rparr>
        (Some (mm_device_cm_zero\<lparr>is_open := True, cm_port := 9, cm_endpoint := 8\<rparr>)) (Some [])
     = (MM_INVALID_ARG,
        Some (mm_device_cm_zero\<lparr>is_open := True, cm_port := 9, cm_endpoint := 8\<rparr>), [])
   \<and> wm_mm_out_send_sysex
        \<lparr>opened = Some 2, start_ok = True, short_msg_ok = True, long_msg_ok = True,
         still_playing = 0\<rparr>
        (Some (mm_device_wm_zero\<lparr>is_open := True, wm_out := 2\<rparr>)) (Some [])
     = (MM_INVALID_ARG, Some (mm_device_wm_zero\<lparr>is_open := True, wm_out := 2\<rparr>), [])
   \<and> length ([] :: u8 list) \<le> MM_SYSEX_BUF_SIZE"
  by (simp add: alsa_mm_out_send_sysex_def cm_mm_out_send_sysex_def wm_mm_out_send_sysex_def
      mm_device_alsa_zero_def mm_device_cm_zero_def mm_device_wm_zero_def)


end
